theory Spec2Isabelle
  imports Main
begin

section \<open>Exceptions\<close>

text \<open>
  Every raise is a value. \<open>ValueError\<close> and \<open>TypeError\<close> are the exceptions of the
  module's own \<open>raise\<close> statements; the interpreter raises \<open>TypeError\<close> too, at a
  call of the module whose keywords clash with the parameters of the callee or whose
  callee is not callable, and \<open>IndexError\<close>, \<open>KeyError\<close> and \<open>AttributeError\<close> at a
  line of the module that indexes an empty list, pops a missing key or reads or sets an
  attribute that is not there. \<open>HostError\<close> is any exception raised inside a callable
  supplied by the user or inside the tensor framework.
\<close>

datatype exn =
    ValueError string
  | TypeError string
  | IndexError string
  | KeyError string
  | AttributeError string
  | HostError string

section \<open>Dictionaries and the object store\<close>

text \<open>
  A dict is an association list in insertion order. \<open>d.pop(k, None)\<close> removes the entry
  of \<open>k\<close> when there is one; \<open>d[k] = v\<close> replaces the value in place or appends a new
  entry; \<open>d.update(other)\<close> does the latter for every entry of \<open>other\<close> in order.
\<close>

type_synonym 'k dict = "(string \<times> 'k) list"

definition dict_pop :: "string \<Rightarrow> 'k dict \<Rightarrow> 'k dict" where
  "dict_pop k d = filter (\<lambda>kv. fst kv \<noteq> k) d"

fun dict_set :: "string \<Rightarrow> 'k \<Rightarrow> 'k dict \<Rightarrow> 'k dict" where
  "dict_set k v [] = [(k, v)]"
| "dict_set k v (kv # d) = (if fst kv = k then (k, v) # d else kv # dict_set k v d)"

definition dict_update :: "'k dict \<Rightarrow> 'k dict \<Rightarrow> 'k dict" where
  "dict_update d other = fold (\<lambda>kv. dict_set (fst kv) (snd kv)) other d"

text \<open>
  Dict objects are mutable and may be aliased, so they live in a store: a reference is an
  index into \<open>heap\<close>, allocation appends. \<open>host\<close> is the state of everything outside the
  module (variables, optimizer slots, the graph under construction), which only the
  callables of the host can read or change.
\<close>

type_synonym ref = nat

record ('k, 'hs) pystate =
  heap :: "'k dict list"
  host :: 'hs

definition deref :: "('k, 'hs) pystate \<Rightarrow> ref \<Rightarrow> 'k dict" where
  "deref st r = (if r < length (heap st) then heap st ! r else [])"

definition new_dict :: "'k dict \<Rightarrow> ('k, 'hs) pystate \<Rightarrow> ref \<times> ('k, 'hs) pystate" where
  "new_dict d st = (length (heap st), st\<lparr>heap := heap st @ [d]\<rparr>)"

definition copy_copy :: "ref \<Rightarrow> ('k, 'hs) pystate \<Rightarrow> ref \<times> ('k, 'hs) pystate" where
  "copy_copy r st = new_dict (deref st r) st"

definition pop_at :: "ref \<Rightarrow> string \<Rightarrow> ('k, 'hs) pystate \<Rightarrow> ('k, 'hs) pystate" where
  "pop_at r k st = st\<lparr>heap := (heap st)[r := dict_pop k (deref st r)]\<rparr>"

definition update_at :: "ref \<Rightarrow> 'k dict \<Rightarrow> ('k, 'hs) pystate \<Rightarrow> ('k, 'hs) pystate" where
  "update_at r other st = st\<lparr>heap := (heap st)[r := dict_update (deref st r) other]\<rparr>"

section \<open>Callables and their introspection\<close>

text \<open>
  A callable is what the module can observe of it: the three \<open>isinstance\<close>/\<open>ismethod\<close>
  tests, the argument names that \<open>inspect.getargspec\<close> (Python 2) or
  \<open>inspect.getfullargspec\<close> (Python 3) reports in \<open>.args\<close>, the parameter names of
  \<open>inspect.signature\<close>, the attribute \<open>__self__\<close> when it has one, and what a call does:
  \<open>invoke f args kwargs\<close> runs \<open>f(*args, **kwargs)\<close> on the host state and returns a
  value or raises. Both introspection calls can raise.
\<close>

record ('p, 'k, 'r, 'hs) callable =
  is_staticmethod :: bool
  is_method :: bool
  is_classmethod :: bool
  argspec_args :: "exn + string list"
  signature_params :: "exn + string list"
  self_attr :: "'p option"
  invoke :: "'p list \<Rightarrow> 'k dict \<Rightarrow> 'hs \<Rightarrow> (exn + 'r) \<times> 'hs"

definition has_self_cls_arg ::
  "bool \<Rightarrow> ('p, 'k, 'r, 'hs) callable \<Rightarrow> exn + bool" where
  "has_self_cls_arg py2 func_or_method =
     (if is_staticmethod func_or_method then Inr False
      else if is_method func_or_method then Inr True
      else if is_classmethod func_or_method then Inr True
      else case (if py2 then argspec_args func_or_method
                 else signature_params func_or_method) of
             Inl e \<Rightarrow> Inl e
           | Inr arg_names \<Rightarrow>
               Inr (arg_names \<noteq> [] \<and> (hd arg_names = ''self'' \<or> hd arg_names = ''cls'')))"

text \<open>\<open>truthy x\<close> is Python's \<open>bool(x)\<close>.\<close>

definition is_unbound :: "('p \<Rightarrow> bool) \<Rightarrow> ('p, 'k, 'r, 'hs) callable \<Rightarrow> bool" where
  "is_unbound truthy method =
     (\<not> (case self_attr method of None \<Rightarrow> False | Some s \<Rightarrow> truthy s))"

section \<open>Future\<close>

record ('p, 'k, 'r, 'hs) future =
  fut_func_or_method :: "('p, 'k, 'r, 'hs) callable"
  fut_args :: "'p list"
  fut_kwargs :: ref
  fut_arg_names :: "string list"
  fut_self :: "'p option"

text \<open>
  \<open>Future.__init__\<close>. The interpreter packs the keyword arguments into a new dict, of
  which \<open>copy.copy\<close> stores a copy; then the argument names are read, and the first
  positional argument of an unbound method becomes the self/cls binding.
\<close>

definition Future_init ::
  "bool \<Rightarrow> ('p \<Rightarrow> bool) \<Rightarrow> ('p, 'k, 'r, 'hs) callable \<Rightarrow> 'p list \<Rightarrow> 'k dict \<Rightarrow>
   ('k, 'hs) pystate \<Rightarrow> (exn + ('p, 'k, 'r, 'hs) future) \<times> ('k, 'hs) pystate" where
  "Future_init py2 truthy func_or_method args kwargs st =
     (let (kw, st1) = new_dict kwargs st;
          (kw_copy, st2) = copy_copy kw st1
      in case argspec_args func_or_method of
           Inl e \<Rightarrow> (Inl e, st2)
         | Inr arg_names \<Rightarrow>
            (case has_self_cls_arg py2 func_or_method of
               Inl e \<Rightarrow> (Inl e, st2)
             | Inr has_self \<Rightarrow>
                 if has_self then
                   if is_unbound truthy func_or_method then
                     (case args of
                        [] \<Rightarrow> (Inl (ValueError
                           ''func_or_method is unbond, but not class/instance provided.''), st2)
                      | a # rest \<Rightarrow>
                          (Inr \<lparr>fut_func_or_method = func_or_method, fut_args = rest,
                                fut_kwargs = kw_copy, fut_arg_names = drop 1 arg_names,
                                fut_self = Some a\<rparr>, st2))
                   else
                     (Inr \<lparr>fut_func_or_method = func_or_method, fut_args = args,
                           fut_kwargs = kw_copy, fut_arg_names = drop 1 arg_names,
                           fut_self = None\<rparr>, st2)
                 else
                   (Inr \<lparr>fut_func_or_method = func_or_method, fut_args = args,
                         fut_kwargs = kw_copy, fut_arg_names = arg_names,
                         fut_self = None\<rparr>, st2)))"

text \<open>
  \<open>Future.__call__\<close>, in two parts. \<open>Future_bindings\<close> is lines 122 to 129 up to the
  call: it chooses the positional arguments, copies the stored keyword arguments, pops
  the names covered by new positional arguments, applies the new keyword arguments, and
  prepends the self/cls binding when it is truthy. \<open>Future_call\<close> then calls the function
  with these bindings.
\<close>

definition self_prefix :: "('p \<Rightarrow> bool) \<Rightarrow> ('p, 'k, 'r, 'hs) future \<Rightarrow> 'p list" where
  "self_prefix truthy fut =
     (case fut_self fut of None \<Rightarrow> [] | Some s \<Rightarrow> if truthy s then [s] else [])"

definition Future_bindings ::
  "('p \<Rightarrow> bool) \<Rightarrow> ('p, 'k, 'r, 'hs) future \<Rightarrow> 'p list \<Rightarrow> 'k dict \<Rightarrow>
   ('k, 'hs) pystate \<Rightarrow> ('p list \<times> 'k dict) \<times> ('k, 'hs) pystate" where
  "Future_bindings truthy fut args kwargs st =
     (let call_args = (if args \<noteq> [] then args else fut_args fut);
          (call_kwargs, st1) = copy_copy (fut_kwargs fut) st;
          st2 = fold (\<lambda>arg_name s. pop_at call_kwargs arg_name s)
                     (take (length args) (fut_arg_names fut)) st1;
          st3 = update_at call_kwargs kwargs st2
      in ((self_prefix truthy fut @ call_args, deref st3 call_kwargs), st3))"

definition Future_call ::
  "('p \<Rightarrow> bool) \<Rightarrow> ('p, 'k, 'r, 'hs) future \<Rightarrow> 'p list \<Rightarrow> 'k dict \<Rightarrow>
   ('k, 'hs) pystate \<Rightarrow> (exn + 'r) \<times> ('k, 'hs) pystate" where
  "Future_call truthy fut args kwargs st =
     (let ((call_args, call_kwargs), st1) = Future_bindings truthy fut args kwargs st;
          (res, h) = invoke (fut_func_or_method fut) call_args call_kwargs (host st1)
      in (res, st1\<lparr>host := h\<rparr>))"

section \<open>future_in_eager_mode\<close>


datatype ('r, 'f) outcome = Outputs 'r | Deferred 'f





section \<open>Nested structures\<close>

text \<open>
  The structures that \<open>nest\<close> walks: a leaf or a sequence of structures.
  \<open>nest.map_structure f\<close> is \<open>map_nest f\<close>; \<open>nest.flatten\<close> lists the leaves from left
  to right.
\<close>

datatype 'a nest = Leaf 'a | Seq "'a nest list"

fun flatten :: "'a nest \<Rightarrow> 'a list" where
  "flatten (Leaf x) = [x]"
| "flatten (Seq xs) = concat (map flatten xs)"

text \<open>A list of results evaluated from left to right: the first exception wins.\<close>

fun sequence_results :: "(exn + 'a) list \<Rightarrow> exn + 'a list" where
  "sequence_results [] = Inr []"
| "sequence_results (Inl e # rs) = Inl e"
| "sequence_results (Inr x # rs) =
     (case sequence_results rs of Inl e \<Rightarrow> Inl e | Inr xs \<Rightarrow> Inr (x # xs))"

section \<open>np_function\<close>

text \<open>
  Tensors and numpy arrays carry a shape, a dtype and their elements. \<open>x.numpy()\<close> and
  \<open>tf.convert_to_tensor\<close> keep all three; a framework dtype and its numpy dtype
  (\<open>as_numpy_dtype\<close>) are the same value here. In graph mode the elements of a tensor are
  not read.
\<close>

datatype dtype = DT_float32 | DT_float64 | DT_int32 | DT_int64 | DT_bool

datatype tensor = Tensor (t_shape: "nat list") (t_dtype: dtype) (t_data: "int list")

datatype ndarray = NdArray (a_shape: "nat list") (a_dtype: dtype) (a_data: "int list")

fun numpy :: "tensor \<Rightarrow> ndarray" where
  "numpy (Tensor s d v) = NdArray s d v"

fun convert_to_tensor :: "ndarray \<Rightarrow> tensor" where
  "convert_to_tensor (NdArray s d v) = Tensor s d v"

definition as_numpy_dtype :: "dtype \<Rightarrow> dtype" where
  "as_numpy_dtype d = d"

definition np_ones :: "nat list \<Rightarrow> dtype \<Rightarrow> ndarray" where
  "np_ones s d = NdArray s d (replicate (prod_list s) 1)"

text \<open>
  Keyword arguments of the wrapped function are any Python values. A memo entry is a
  list of Python values too: the source stores dtypes, \<open>get_output_dtypes\<close> may return
  anything.
\<close>

datatype pyval = PyTensor tensor | PyArray ndarray | PyInt int | PyNone

datatype pyattr = DTypeOf dtype | ShapeOf "nat list"

type_synonym np_func = "ndarray nest list \<Rightarrow> pyval dict \<Rightarrow> exn + ndarray option nest"

text \<open>
  The state of a decorated function: its attribute \<open>memo\<close>, and the trace of the
  output-dtype inferences made so far, each with the input dtypes it was made for and
  whether it returned (\<open>True\<close>) or raised (\<open>False\<close>). The trace is what lines 410 and 412
  do to the outside world: a call of \<open>func\<close> or of \<open>get_output_dtypes\<close>.
\<close>

record np_state =
  memo :: "dtype list \<rightharpoonup> pyattr list"
  inferences :: "(dtype list \<times> bool) list"

definition decorated_init :: np_state where
  "decorated_init = \<lparr>memo = Map.empty, inferences = []\<rparr>"


datatype 'g np_result = Eager "tensor option nest" | Graph 'g

definition convert :: "ndarray option \<Rightarrow> tensor option" where
  "convert x = (case x of None \<Rightarrow> None | Some a \<Rightarrow> Some (convert_to_tensor a))"

definition leaf_dtype :: "ndarray option \<Rightarrow> exn + pyattr" where
  "leaf_dtype x = (case x of
      None \<Rightarrow> Inl (AttributeError ''dtype'')
    | Some a \<Rightarrow> Inr (DTypeOf (a_dtype a)))"

definition compute_output_dtypes ::
  "np_func \<Rightarrow> pyval dict \<Rightarrow> ndarray nest list \<Rightarrow> exn + pyattr list" where
  "compute_output_dtypes func kwargs args =
     (case func args kwargs of
        Inl e \<Rightarrow> Inl e
      | Inr result \<Rightarrow> sequence_results (map leaf_dtype (flatten result)))"

definition infer_output_dtypes ::
  "np_func \<Rightarrow> (dtype list \<Rightarrow> exn + pyattr list) option \<Rightarrow> tensor nest list \<Rightarrow>
   pyval dict \<Rightarrow> dtype list \<Rightarrow> exn + pyattr list" where
  "infer_output_dtypes func get_output_dtypes args kwargs input_dtypes =
     (case get_output_dtypes of
        None \<Rightarrow>
          (let zero_args =
                 map (map_nest (\<lambda>x. np_ones (t_shape x) (as_numpy_dtype (t_dtype x)))) args
           in compute_output_dtypes func kwargs zero_args)
      | Some g \<Rightarrow> g input_dtypes)"

text \<open>
  \<open>wrapper\<close>. \<open>functools.partial(func, **kwargs)\<close> called on positional arguments is
  \<open>func\<close> called on them and \<open>kwargs\<close>. \<open>py_function kwargs args Tout\<close> is
  \<open>tf.py_function(func_part, inp=args, Tout=Tout)\<close>, an operation of the host.
\<close>

definition input_dtypes_of :: "tensor nest list \<Rightarrow> dtype list" where
  "input_dtypes_of args = map t_dtype (flatten (Seq args))"

definition wrapper ::
  "np_func \<Rightarrow> (dtype list \<Rightarrow> exn + pyattr list) option \<Rightarrow>
   (pyval dict \<Rightarrow> tensor nest list \<Rightarrow> pyattr list \<Rightarrow> exn + 'g) \<Rightarrow> bool \<Rightarrow>
   tensor nest list \<Rightarrow> pyval dict \<Rightarrow> np_state \<Rightarrow> (exn + 'g np_result) \<times> np_state" where
  "wrapper func get_output_dtypes py_function executing_eagerly args kwargs st =
     (if executing_eagerly then
        (case func (map (map_nest numpy) args) kwargs of
           Inl e \<Rightarrow> (Inl e, st)
         | Inr result \<Rightarrow> (Inr (Eager (map_nest convert result)), st))
      else
        (let input_dtypes = input_dtypes_of args
         in case memo st input_dtypes of
              Some output_dtypes \<Rightarrow>
                (map_sum id Graph (py_function kwargs args output_dtypes), st)
            | None \<Rightarrow>
               (case infer_output_dtypes func get_output_dtypes args kwargs input_dtypes of
                  Inl e \<Rightarrow>
                    (Inl e, st\<lparr>inferences := inferences st @ [(input_dtypes, False)]\<rparr>)
                | Inr output_dtypes \<Rightarrow>
                    (map_sum id Graph (py_function kwargs args output_dtypes),
                     st\<lparr>memo := (memo st)(input_dtypes \<mapsto> output_dtypes),
                        inferences := inferences st @ [(input_dtypes, True)]\<rparr>))))"

text \<open>A sequence of graph-mode calls of one decorated function, each with its arguments.\<close>

fun graph_calls ::
  "np_func \<Rightarrow> (dtype list \<Rightarrow> exn + pyattr list) option \<Rightarrow>
   (pyval dict \<Rightarrow> tensor nest list \<Rightarrow> pyattr list \<Rightarrow> exn + 'g) \<Rightarrow>
   (tensor nest list \<times> pyval dict) list \<Rightarrow> np_state \<Rightarrow> np_state" where
  "graph_calls func god pf [] st = st"
| "graph_calls func god pf (c # cs) st =
     graph_calls func god pf cs (snd (wrapper func god pf False (fst c) (snd c) st))"

section \<open>create_train_step\<close>

text \<open>
  \<open>nest.pack_sequence_as structure flat_sequence\<close> fills the shape of \<open>structure\<close> with
  the elements of \<open>flat_sequence\<close> from left to right, and raises when their number is
  not the number of leaves.
\<close>

fun pack_from :: "'a nest \<Rightarrow> 'b list \<Rightarrow> 'b nest \<times> 'b list"
  and pack_list_from :: "'a nest list \<Rightarrow> 'b list \<Rightarrow> 'b nest list \<times> 'b list" where
  "pack_from (Leaf x) ys = (Leaf (hd ys), tl ys)"
| "pack_from (Seq ns) ys = (let (ms, rest) = pack_list_from ns ys in (Seq ms, rest))"
| "pack_list_from [] ys = ([], ys)"
| "pack_list_from (n # ns) ys =
     (let (m, r1) = pack_from n ys; (ms, r2) = pack_list_from ns r1 in (m # ms, r2))"

definition pack_sequence_as :: "'a nest \<Rightarrow> 'b list \<Rightarrow> exn + 'b nest" where
  "pack_sequence_as structure flat_sequence =
     (if length flat_sequence = length (flatten structure)
      then Inr (fst (pack_from structure flat_sequence))
      else Inl (HostError ''ValueError: could not pack sequence''))"

text \<open>
  Sequencing on the host state: \<open>then_do\<close> stops at the first exception, \<open>finally_do\<close>
  leaves a \<open>with\<close> block, on a normal return and on an exception alike.
\<close>

definition then_do ::
  "(exn + 'x) \<times> 'hs \<Rightarrow> ('x \<Rightarrow> 'hs \<Rightarrow> (exn + 'y) \<times> 'hs) \<Rightarrow> (exn + 'y) \<times> 'hs" where
  "then_do m k = (case m of (Inl e, h) \<Rightarrow> (Inl e, h) | (Inr x, h) \<Rightarrow> k x h)"

definition finally_do :: "(exn + 'x) \<times> 'hs \<Rightarrow> ('hs \<Rightarrow> 'hs) \<Rightarrow> (exn + 'x) \<times> 'hs" where
  "finally_do m leave = (fst m, leave (snd m))"


fun map_m ::
  "('x \<Rightarrow> 'hs \<Rightarrow> (exn + 'y) \<times> 'hs) \<Rightarrow> 'x list \<Rightarrow> 'hs \<Rightarrow> (exn + 'y list) \<times> 'hs" where
  "map_m f [] h = (Inr [], h)"
| "map_m f (x # xs) h =
     then_do (f x h) (\<lambda>y h1. then_do (map_m f xs h1) (\<lambda>ys h2. (Inr (y # ys), h2)))"

text \<open>
  \<open>nest.map_structure\<close> with a function that acts on the host: it is applied to the
  flattened leaves in order and the results are packed into the shape of the input.
\<close>

definition map_structure_m ::
  "('x \<Rightarrow> 'hs \<Rightarrow> (exn + 'y) \<times> 'hs) \<Rightarrow> 'x nest \<Rightarrow> 'hs \<Rightarrow> (exn + 'y nest) \<times> 'hs" where
  "map_structure_m f structure h =
     then_do (map_m f (flatten structure) h) (\<lambda>ys h1. (pack_sequence_as structure ys, h1))"

text \<open>
  The arguments of \<open>create_train_step\<close>. A loss is a structure of tensors or a callable
  (the flag tells whether it is an instance of \<open>Future\<close>); \<open>total_loss_fn\<close> is \<open>None\<close>, a
  callable or some other object; \<open>variables_to_train\<close> is \<open>None\<close>, a callable or a
  structure of variables; \<open>global_step\<close> is the sentinel \<open>_USE_GLOBAL_STEP\<close> or a given
  value, which may be \<open>None\<close>. A gradient is dense or an \<open>IndexedSlices\<close> with its values.
  \<open>update_ops\<close>, \<open>gate_gradients\<close> and \<open>aggregation_method\<close> are only handed on.
\<close>

datatype 'g grad = Dense 'g | IndexedSlices 'g

text \<open>
  What a \<open>for\<close> loop can run over: a list, which every loop sees whole, or an iterator,
  which the first loop uses up. \<open>zip\<close> returns a list in Python 2 and an iterator in
  Python 3.
\<close>

datatype 'x iterable = PyList "'x list" | PyIterator "'x list"

fun items :: "'x iterable \<Rightarrow> 'x list" where
  "items (PyList xs) = xs"
| "items (PyIterator xs) = xs"

fun used_up :: "'x iterable \<Rightarrow> 'x iterable" where
  "used_up (PyList xs) = PyList xs"
| "used_up (PyIterator xs) = PyIterator []"

definition py_zip :: "bool \<Rightarrow> 'x list \<Rightarrow> 'y list \<Rightarrow> ('x \<times> 'y) iterable" where
  "py_zip py2 xs ys = (if py2 then PyList (zip xs ys) else PyIterator (zip xs ys))"

datatype ('a, 't, 'hs) loss_arg =
    LossTensors "'t nest"
  | LossFn bool "'a list \<Rightarrow> 'hs \<Rightarrow> (exn + 't nest) \<times> 'hs"

datatype ('t, 'hs) total_loss_fn_arg =
    TotalLossFnNone
  | TotalLossFn "'t nest \<Rightarrow> 'hs \<Rightarrow> (exn + 't nest) \<times> 'hs"
  | TotalLossFnNotCallable

datatype ('v, 'hs) variables_arg =
    VariablesNone
  | VariablesFn "'hs \<Rightarrow> (exn + 'v nest) \<times> 'hs"
  | Variables "'v nest"

datatype 'v global_step_arg = USE_GLOBAL_STEP | GlobalStep "'v option"

record ('a, 't, 'v, 'g, 'o, 'u, 'hs) train_args =
  loss :: "('a, 't, 'hs) loss_arg"
  optimizer :: 'o
  global_step :: "'v global_step_arg"
  total_loss_fn :: "('t, 'hs) total_loss_fn_arg"
  update_ops :: 'u
  variables_to_train :: "('v, 'hs) variables_arg"
  transform_grads_fn ::
    "(('g grad option \<times> 'v) iterable \<Rightarrow> 'hs \<Rightarrow>
      (exn + ('g grad option \<times> 'v) iterable) \<times> 'hs) option"
  summarize_gradients :: bool
  gate_gradients :: 'u
  aggregation_method :: 'u
  colocate_gradients_with_ops :: bool
  check_numerics :: bool

text \<open>
  The operations of the tensor framework that the function calls, each acting on the
  host state. Those that only record something (logging, summaries, name scopes, the
  tape, control dependencies, the global step) do not raise here. \<open>tf_create_train_op\<close>
  receives the total loss and the arguments handed on to it.
\<close>

record ('a, 't, 'v, 'g, 'o, 'u, 'hs) framework =
  tf_executing_eagerly :: "'hs \<Rightarrow> bool"
  tf_control_dependencies_enter :: "'t list \<Rightarrow> 'hs \<Rightarrow> 'hs"
  tf_control_dependencies_exit :: "'hs \<Rightarrow> 'hs"
  tf_create_train_op ::
    "'t nest \<Rightarrow> ('a, 't, 'v, 'g, 'o, 'u, 'hs) train_args \<Rightarrow> 'hs \<Rightarrow> (exn + 't) \<times> 'hs"
  tf_identity :: "'t \<Rightarrow> string \<Rightarrow> 'hs \<Rightarrow> (exn + 't) \<times> 'hs"
  tf_get_or_create_global_step :: "'hs \<Rightarrow> 'v \<times> 'hs"
  tf_logging_warning :: "string \<Rightarrow> 'hs \<Rightarrow> 'hs"
  tf_logging_info :: "string \<Rightarrow> 'hs \<Rightarrow> 'hs"
  tf_tape_enter :: "'hs \<Rightarrow> 'hs"
  tf_tape_exit :: "'hs \<Rightarrow> 'hs"
  tf_watched_variables :: "'hs \<Rightarrow> 'v nest"
  tf_gradient :: "'t nest \<Rightarrow> 'v list \<Rightarrow> 'hs \<Rightarrow> (exn + 'g grad option list) \<times> 'hs"
  tf_name_scope_enter :: "string \<Rightarrow> 'hs \<Rightarrow> 'hs"
  tf_name_scope_exit :: "'hs \<Rightarrow> 'hs"
  tf_var_name :: "'v \<Rightarrow> string"
  tf_histogram :: "string \<Rightarrow> 'g \<Rightarrow> 'hs \<Rightarrow> 'hs"
  tf_global_norm :: "'g list \<Rightarrow> 't"
  tf_scalar :: "string \<Rightarrow> 't \<Rightarrow> 'hs \<Rightarrow> 'hs"
  tf_check_numerics :: "'t \<Rightarrow> string \<Rightarrow> 'hs \<Rightarrow> (exn + 't) \<times> 'hs"
  tf_apply_gradients ::
    "'o \<Rightarrow> ('g grad option \<times> 'v) list \<Rightarrow> 'v option \<Rightarrow> 'hs \<Rightarrow> (exn + unit) \<times> 'hs"

definition replace_colon :: "string \<Rightarrow> string" where
  "replace_colon name = map (\<lambda>c. if c = CHR '':'' then CHR ''_'' else c) name"

fun add_gradients_summaries ::
  "('a, 't, 'v, 'g, 'o, 'u, 'hs) framework \<Rightarrow> ('g grad option \<times> 'v) list \<Rightarrow> 'hs \<Rightarrow> 'hs" where
  "add_gradients_summaries fw [] h = h"
| "add_gradients_summaries fw ((grad, var) # rest) h =
     add_gradients_summaries fw rest
       (case grad of
          Some g \<Rightarrow>
            (let grad_values = (case g of IndexedSlices values \<Rightarrow> values | Dense d \<Rightarrow> d);
                 var_name = replace_colon (tf_var_name fw var)
             in tf_scalar fw (var_name @ ''_gradient_norm'') (tf_global_norm fw [grad_values])
                  (tf_histogram fw (var_name @ ''_gradient'') grad_values h))
        | None \<Rightarrow>
            tf_logging_info fw (''Var '' @ tf_var_name fw var @ '' has no gradient'') h)"

text \<open>
  The keyword arguments of the train step hold the loss, the total-loss function and the
  variables to train. \<open>kwargs_pop\<close> is \<open>kwargs.pop(key)\<close>, which raises on a missing key.
  A value of another kind than its key announces is outside the typed arguments; calling
  it raises the interpreter's error for an object that is not callable.
\<close>

datatype ('a, 't, 'v, 'hs) train_kwarg =
    KwLoss "('a, 't, 'hs) loss_arg"
  | KwTotalLossFn "('t, 'hs) total_loss_fn_arg"
  | KwVariables "('v, 'hs) variables_arg"

definition kwargs_pop :: "string \<Rightarrow> 'k dict \<Rightarrow> exn + 'k \<times> 'k dict" where
  "kwargs_pop k d =
     (case map_of d k of None \<Rightarrow> Inl (KeyError k) | Some v \<Rightarrow> Inr (v, dict_pop k d))"

definition not_callable :: exn where
  "not_callable = TypeError ''object is not callable''"

definition call_loss ::
  "('a, 't, 'v, 'hs) train_kwarg \<Rightarrow> 'a list \<Rightarrow> 'hs \<Rightarrow> (exn + 't nest) \<times> 'hs" where
  "call_loss l args h =
     (case l of KwLoss (LossFn is_future f) \<Rightarrow> f args h | _ \<Rightarrow> (Inl not_callable, h))"

definition call_total_loss_fn ::
  "('a, 't, 'v, 'hs) train_kwarg \<Rightarrow> 't nest \<Rightarrow> 'hs \<Rightarrow> (exn + 't nest) \<times> 'hs" where
  "call_total_loss_fn t loss_value h =
     (case t of KwTotalLossFn (TotalLossFn f) \<Rightarrow> f loss_value h | _ \<Rightarrow> (Inl not_callable, h))"

definition resolve_variables ::
  "('a, 't, 'v, 'g, 'o, 'u, 'hs) framework \<Rightarrow> ('a, 't, 'v, 'hs) train_kwarg \<Rightarrow> 'hs \<Rightarrow>
   (exn + 'v list) \<times> 'hs" where
  "resolve_variables fw v h =
     (case v of
        KwVariables VariablesNone \<Rightarrow> (Inr (flatten (tf_watched_variables fw h)), h)
      | KwVariables (VariablesFn f) \<Rightarrow> then_do (f h) (\<lambda>vars h1. (Inr (flatten vars), h1))
      | KwVariables (Variables vars) \<Rightarrow> (Inr (flatten vars), h)
      | _ \<Rightarrow> (Inl not_callable, h))"

text \<open>
  Lines 306 to 311. The first leaf of the loss goes through \<open>tf.check_numerics\<close>; an
  empty structure has no first leaf.
\<close>

definition check_loss ::
  "('a, 't, 'v, 'g, 'o, 'u, 'hs) framework \<Rightarrow> 't nest \<Rightarrow> 'hs \<Rightarrow> (exn + 't nest) \<times> 'hs" where
  "check_loss fw loss_value h =
     finally_do
       (case flatten loss_value of
          [] \<Rightarrow> (Inl (IndexError ''list index out of range''), tf_name_scope_enter fw ''train_op'' h)
        | x # xs \<Rightarrow>
            then_do (tf_check_numerics fw x ''Loss is inf or nan''
                       (tf_name_scope_enter fw ''train_op'' h))
              (\<lambda>checked h1. (pack_sequence_as loss_value (checked # xs), h1)))
       (tf_name_scope_exit fw)"

text \<open>
  \<open>train_step\<close>, the function that the eager branch wraps in a Future.
  \<open>transform_grads_fn\<close> receives what \<open>zip\<close> returned and returns a list or an
  iterator of its own choice; the loop of \<open>add_gradients_summaries\<close> uses an iterator
  up, and \<open>optimizer.apply_gradients\<close> receives what is left.
\<close>

definition train_step ::
  "('a, 't, 'v, 'g, 'o, 'u, 'hs) framework \<Rightarrow> bool \<Rightarrow>
   ('a, 't, 'v, 'g, 'o, 'u, 'hs) train_args \<Rightarrow> 'v option \<Rightarrow>
   'a list \<Rightarrow> ('a, 't, 'v, 'hs) train_kwarg dict \<Rightarrow> 'hs \<Rightarrow> (exn + 't nest) \<times> 'hs" where
  "train_step fw py2 p gs args kwargs h =
     then_do (kwargs_pop ''_loss'' kwargs, h) (\<lambda>(l, kw1) h.
     then_do (kwargs_pop ''_total_loss_fn'' kw1, h) (\<lambda>(t, kw2) h.
     then_do (kwargs_pop ''_variables_to_train'' kw2, h) (\<lambda>(v, kw3) h.
     then_do
       (finally_do
          (then_do (call_loss l args (tf_tape_enter fw h)) (\<lambda>loss_value h.
           then_do (call_total_loss_fn t loss_value h) (\<lambda>total_loss_value h.
             (Inr (loss_value, total_loss_value), h))))
          (tf_tape_exit fw))
       (\<lambda>(loss_value, total_loss_value) h.
     then_do (resolve_variables fw v h) (\<lambda>vars h.
     then_do (tf_gradient fw total_loss_value vars h) (\<lambda>grads h.
     then_do (case transform_grads_fn p of
                None \<Rightarrow> (Inr (py_zip py2 grads vars), h)
              | Some f \<Rightarrow> f (py_zip py2 grads vars) h)
       (\<lambda>grads_and_vars h.
     then_do (if summarize_gradients p
              then (Inr (used_up grads_and_vars),
                    tf_name_scope_exit fw
                      (add_gradients_summaries fw (items grads_and_vars)
                         (tf_name_scope_enter fw ''summarize_grads'' h)))
              else (Inr grads_and_vars, h))
       (\<lambda>grads_and_vars h.
     then_do (if check_numerics p then check_loss fw loss_value h else (Inr loss_value, h))
       (\<lambda>loss_value h.
     then_do (tf_apply_gradients fw (optimizer p) (items grads_and_vars) gs h) (\<lambda>_ h.
       (Inr loss_value, h)))))))))))"

definition train_step_function ::
  "('a, 't, 'v, 'g, 'o, 'u, 'hs) framework \<Rightarrow> bool \<Rightarrow>
   ('a, 't, 'v, 'g, 'o, 'u, 'hs) train_args \<Rightarrow> 'v option \<Rightarrow>
   ('a, ('a, 't, 'v, 'hs) train_kwarg, 't nest, 'hs) callable" where
  "train_step_function fw py2 p gs =
     \<lparr>is_staticmethod = False, is_method = False, is_classmethod = False,
      argspec_args = Inr [], signature_params = Inr [''args'', ''kwargs''],
      self_attr = None, invoke = train_step fw py2 p gs\<rparr>"

text \<open>
  \<open>create_train_step\<close>. In graph mode it returns the loss tensors, each behind
  \<open>tf.identity\<close> created under the control dependency of the train op; in eager mode it
  returns the Future of \<open>train_step\<close>.
\<close>

definition identity_fn :: "'t nest \<Rightarrow> 'hs \<Rightarrow> (exn + 't nest) \<times> 'hs" where
  "identity_fn x h = (Inr x, h)"

definition graph_train_step ::
  "('a, 't, 'v, 'g, 'o, 'u, 'hs) framework \<Rightarrow> ('a, 't, 'v, 'g, 'o, 'u, 'hs) train_args \<Rightarrow>
   ('t nest \<Rightarrow> 'hs \<Rightarrow> (exn + 't nest) \<times> 'hs) \<Rightarrow> 'hs \<Rightarrow> (exn + 't nest) \<times> 'hs" where
  "graph_train_step fw p total_loss_fn' h =
     then_do (case loss p of LossFn is_future f \<Rightarrow> f [] h | LossTensors l \<Rightarrow> (Inr l, h))
       (\<lambda>loss' h.
     then_do (case variables_to_train p of
                VariablesFn f \<Rightarrow> then_do (f h) (\<lambda>vars h. (Inr (Variables vars), h))
              | v \<Rightarrow> (Inr v, h))
       (\<lambda>variables_to_train' h.
     then_do
       (finally_do
          (then_do (total_loss_fn' loss' (tf_control_dependencies_enter fw (flatten loss') h))
             (\<lambda>total_loss h.
                tf_create_train_op fw total_loss
                  (p\<lparr>variables_to_train := variables_to_train'\<rparr>) h))
          (tf_control_dependencies_exit fw))
       (\<lambda>train_op h.
          finally_do
            (map_structure_m (\<lambda>t. tf_identity fw t ''loss'') loss'
               (tf_control_dependencies_enter fw [train_op] h))
            (tf_control_dependencies_exit fw))))"

definition resolve_global_step ::
  "('a, 't, 'v, 'g, 'o, 'u, 'hs) framework \<Rightarrow> ('a, 't, 'v, 'g, 'o, 'u, 'hs) train_args \<Rightarrow>
   'hs \<Rightarrow> 'v option \<times> 'hs" where
  "resolve_global_step fw p h =
     (case global_step p of
        USE_GLOBAL_STEP \<Rightarrow>
          (Some (fst (tf_get_or_create_global_step fw h)),
           snd (tf_get_or_create_global_step fw h))
      | GlobalStep g \<Rightarrow> (g, h))"

definition create_train_step ::
  "('a, 't, 'v, 'g, 'o, 'u, 'hs) framework \<Rightarrow> bool \<Rightarrow> ('a \<Rightarrow> bool) \<Rightarrow>
   ('a, 't, 'v, 'g, 'o, 'u, 'hs) train_args \<Rightarrow>
   (('a, 't, 'v, 'hs) train_kwarg, 'hs) pystate \<Rightarrow>
   (exn + ('t nest, ('a, ('a, 't, 'v, 'hs) train_kwarg, 't nest, 'hs) future) outcome) \<times>
   (('a, 't, 'v, 'hs) train_kwarg, 'hs) pystate" where
  "create_train_step fw py2 truthy p st =
     (case total_loss_fn p of
        TotalLossFnNotCallable \<Rightarrow>
          (Inl (ValueError ''`total_loss_fn` should be a function.''), st)
      | tlf \<Rightarrow>
         (let total_loss_fn' = (case tlf of TotalLossFn f \<Rightarrow> f | _ \<Rightarrow> identity_fn)
          in if \<not> tf_executing_eagerly fw (host st) then
               (case graph_train_step fw p total_loss_fn' (host st) of
                  (Inl e, h) \<Rightarrow> (Inl e, st\<lparr>host := h\<rparr>)
                | (Inr r, h) \<Rightarrow> (Inr (Outputs r), st\<lparr>host := h\<rparr>))
             else
               (let (gs, h1) = resolve_global_step fw p (host st)
                in case loss p of
                     LossTensors l \<Rightarrow>
                       (Inl (ValueError ''`loss` should be a function in eager mode.''),
                        st\<lparr>host := h1\<rparr>)
                   | LossFn is_future f \<Rightarrow>
                       (let h2 = (if is_future then h1
                                  else tf_logging_warning fw
                                    ''loss should be an instance of eager_utils.Future'' h1)
                        in case Future_init py2 truthy (train_step_function fw py2 p gs) []
                                  [(''_loss'', KwLoss (loss p)),
                                   (''_total_loss_fn'', KwTotalLossFn (TotalLossFn total_loss_fn')),
                                   (''_variables_to_train'', KwVariables (variables_to_train p))]
                                  (st\<lparr>host := h2\<rparr>) of
                             (Inl e, st') \<Rightarrow> (Inl e, st')
                           | (Inr fut, st') \<Rightarrow> (Inr (Deferred fut), st')))))"

section \<open>Concrete instances\<close>

text \<open>
  Small instances on which the theorems below are evaluated: Python values are integers
  (\<open>0\<close> is falsy), the host state counts the calls made, and \<open>echo names\<close> is a plain
  function with the given parameter names that returns the bindings it was called with.
\<close>

definition truthy_int :: "int \<Rightarrow> bool" where
  "truthy_int x = (x \<noteq> 0)"

definition echo :: "string list \<Rightarrow> (int, int, int list \<times> int dict, nat) callable" where
  "echo names =
     \<lparr>is_staticmethod = False, is_method = False, is_classmethod = False,
      argspec_args = Inr names, signature_params = Inr names, self_attr = None,
      invoke = (\<lambda>args kwargs h. (Inr (args, kwargs), Suc h))\<rparr>"

definition empty_state :: "(int, nat) pystate" where
  "empty_state = \<lparr>heap = [], host = 0\<rparr>"






text \<open>
  For \<open>np_function\<close>: a function that returns its first argument, one that always
  raises, one that returns \<open>None\<close>, one whose output tells whether a keyword argument is
  still a tensor, and \<open>tf.py_function\<close> as the triple of what it was given.
\<close>

definition first_arg :: np_func where
  "first_arg args kwargs =
     (case args of [] \<Rightarrow> Inl (HostError ''missing argument'')
      | a # rest \<Rightarrow> Inr (map_nest Some a))"

definition failing_func :: np_func where
  "failing_func args kwargs = Inl (HostError ''cannot divide by zero'')"


definition is_tensor_val :: "pyval \<Rightarrow> bool" where
  "is_tensor_val v = (case v of PyTensor t \<Rightarrow> True | _ \<Rightarrow> False)"

definition kw_spy :: np_func where
  "kw_spy args kwargs =
     Inr (Leaf (Some (NdArray [] DT_int32
       [if list_ex (\<lambda>kv. is_tensor_val (snd kv)) kwargs then 1 else 0])))"

definition py_function_op ::
  "pyval dict \<Rightarrow> tensor nest list \<Rightarrow> pyattr list \<Rightarrow>
   exn + (pyval dict \<times> tensor nest list \<times> pyattr list)" where
  "py_function_op kwargs inp Tout = Inr (kwargs, inp, Tout)"

definition t2 :: tensor where "t2 = Tensor [2] DT_float32 [5, 6]"
definition t3 :: tensor where "t3 = Tensor [3] DT_float32 [7, 8, 9]"

text \<open>
  The readings of claims C1 and C7 that the code does not follow: a memo entry made of
  the shapes of the outputs, and keyword arguments converted like positional ones.
\<close>

definition claimed_output_shapes :: "exn + ndarray option nest \<Rightarrow> pyattr list option" where
  "claimed_output_shapes r = (case r of Inl e \<Rightarrow> None
     | Inr result \<Rightarrow> Some (map (\<lambda>x. ShapeOf (a_shape (the x))) (flatten result)))"

definition claimed_numpy_kwargs :: "pyval dict \<Rightarrow> pyval dict" where
  "claimed_numpy_kwargs kwargs =
     map (\<lambda>kv. (fst kv, case snd kv of PyTensor t \<Rightarrow> PyArray (numpy t) | v \<Rightarrow> v)) kwargs"

text \<open>
  For \<open>create_train_step\<close>: a framework whose host state is the list of the operations
  performed so far, each with the tensors and the variables it was given, in eager and in
  graph mode; tensors and gradients are integers, variables and the optimizer are names.
  \<open>demo_loss\<close> returns a pair of tensors.
\<close>

datatype event = Event string "int list" "string list"

definition demo_fw :: "(int, int, string, int, string, unit, event list) framework" where
  "demo_fw =
     \<lparr>tf_executing_eagerly = (\<lambda>h. True),
      tf_control_dependencies_enter = (\<lambda>deps h. h @ [Event ''control_dependencies'' deps []]),
      tf_control_dependencies_exit = (\<lambda>h. h @ [Event ''end control_dependencies'' [] []]),
      tf_create_train_op =
        (\<lambda>total p h. (Inr 100, h @ [Event ''create_train_op'' (flatten total) []])),
      tf_identity = (\<lambda>t name h. (Inr t, h @ [Event ''identity'' [t] []])),
      tf_get_or_create_global_step =
        (\<lambda>h. (''global_step'', h @ [Event ''get_or_create_global_step'' [] [''global_step'']])),
      tf_logging_warning = (\<lambda>msg h. h @ [Event ''warning'' [] []]),
      tf_logging_info = (\<lambda>msg h. h @ [Event ''info'' [] []]),
      tf_tape_enter = (\<lambda>h. h @ [Event ''tape'' [] []]),
      tf_tape_exit = (\<lambda>h. h @ [Event ''end tape'' [] []]),
      tf_watched_variables = (\<lambda>h. Seq [Leaf ''w'', Leaf ''b'']),
      tf_gradient =
        (\<lambda>total vars h. (Inr (map (\<lambda>v. Some (Dense 1)) vars),
                          h @ [Event ''gradient'' (flatten total) vars])),
      tf_name_scope_enter = (\<lambda>name h. h @ [Event name [] []]),
      tf_name_scope_exit = (\<lambda>h. h @ [Event ''end name_scope'' [] []]),
      tf_var_name = (\<lambda>v. v),
      tf_histogram = (\<lambda>name g h. h @ [Event ''histogram'' [g] []]),
      tf_global_norm = (\<lambda>gs. 0),
      tf_scalar = (\<lambda>name t h. h @ [Event ''scalar'' [t] []]),
      tf_check_numerics = (\<lambda>t msg h. (Inr t, h @ [Event ''check_numerics'' [t] []])),
      tf_apply_gradients =
        (\<lambda>opt gv gs h. (Inr (), h @ [Event ''apply_gradients'' [] (map snd gv)]))\<rparr>"

definition demo_graph_fw :: "(int, int, string, int, string, unit, event list) framework" where
  "demo_graph_fw = demo_fw\<lparr>tf_executing_eagerly := (\<lambda>h. False)\<rparr>"

definition demo_loss :: "int list \<Rightarrow> event list \<Rightarrow> (exn + int nest) \<times> event list" where
  "demo_loss args h = (Inr (Seq [Leaf (sum_list args), Leaf 7]), h @ [Event ''loss'' args []])"

definition demo_args :: "(int, int, string, int, string, unit, event list) train_args" where
  "demo_args =
     \<lparr>loss = LossFn True demo_loss, optimizer = ''sgd'', global_step = USE_GLOBAL_STEP,
      total_loss_fn = TotalLossFnNone, update_ops = (), variables_to_train = VariablesNone,
      transform_grads_fn = None, summarize_gradients = False, gate_gradients = (),
      aggregation_method = (), colocate_gradients_with_ops = False, check_numerics = True\<rparr>"

definition summaries_args :: "(int, int, string, int, string, unit, event list) train_args" where
  "summaries_args = demo_args\<lparr>summarize_gradients := True\<rparr>"

definition initial_state :: "((int, int, string, event list) train_kwarg, event list) pystate" where
  "initial_state = \<lparr>heap = [], host = []\<rparr>"

definition demo_train_kwargs :: "(int, int, string, event list) train_kwarg dict" where
  "demo_train_kwargs =
     [(''_loss'', KwLoss (LossFn True demo_loss)),
      (''_total_loss_fn'', KwTotalLossFn (TotalLossFn identity_fn)),
      (''_variables_to_train'', KwVariables VariablesNone)]"


definition tensor_loss_args :: "(int, int, string, int, string, unit, event list) train_args" where
  "tensor_loss_args = demo_args\<lparr>loss := LossTensors (Leaf 5)\<rparr>"

definition bad_total_loss_fn_args ::
  "(int, int, string, int, string, unit, event list) train_args" where
  "bad_total_loss_fn_args = demo_args\<lparr>total_loss_fn := TotalLossFnNotCallable\<rparr>"


section \<open>Properties of Future\<close>

lemma fold_pop_at:
  "r < length (heap st) \<Longrightarrow>
   fold (\<lambda>n s. pop_at r n s) ns st = st\<lparr>heap := (heap st)[r := fold dict_pop ns (deref st r)]\<rparr>"
proof (induction ns arbitrary: st)
  case Nil
  then show ?case by (simp add: deref_def)
next
  case (Cons n ns)
  then show ?case by (simp add: pop_at_def deref_def)
qed

lemma Future_bindings_eq:
  "Future_bindings truthy fut args kwargs st =
     (let kw = dict_update (fold dict_pop (take (length args) (fut_arg_names fut))
                              (deref st (fut_kwargs fut))) kwargs
      in ((self_prefix truthy fut @ (if args \<noteq> [] then args else fut_args fut), kw),
          st\<lparr>heap := heap st @ [kw]\<rparr>))"
  by (simp add: Future_bindings_def copy_copy_def new_dict_def fold_pop_at update_at_def deref_def Let_def)

lemma Future_call_eq:
  "Future_call truthy fut args kwargs st =
     (let kw = dict_update (fold dict_pop (take (length args) (fut_arg_names fut))
                              (deref st (fut_kwargs fut))) kwargs;
          r = invoke (fut_func_or_method fut)
                (self_prefix truthy fut @ (if args \<noteq> [] then args else fut_args fut)) kw (host st)
      in (fst r, \<lparr>heap = heap st @ [kw], host = snd r\<rparr>))"
  by (simp add: Future_call_def Future_bindings_eq Let_def split: prod.splits)

lemma Future_init_Inr:
  assumes "Future_init py2 truthy f args kwargs st = (Inr fut, st')"
  shows "fut_func_or_method fut = f"
    and "heap st' = heap st @ [kwargs, kwargs]"
    and "host st' = host st"
    and "fut_kwargs fut = Suc (length (heap st))"
    and "(case fut_self fut of None \<Rightarrow> [] | Some s \<Rightarrow> [s]) @ fut_args fut = args"
  using assms
  by (auto simp: Future_init_def new_dict_def copy_copy_def deref_def Let_def nth_append
      split: sum.splits if_splits list.splits)




lemma Future_call_bound_arguments:
  assumes "Future_init py2 truthy f args kwargs st0 = (Inr fut, st)"
    and "case fut_self fut of None \<Rightarrow> True | Some s \<Rightarrow> truthy s"
  shows "Future_call truthy fut [] [] st =
     (fst (invoke f args kwargs (host st)),
      \<lparr>heap = heap st @ [kwargs], host = snd (invoke f args kwargs (host st))\<rparr>)"
proof -
  have k: "deref st (fut_kwargs fut) = kwargs"
    using Future_init_Inr(2,4) [OF assms(1)] by (simp add: deref_def nth_append)
  have a: "self_prefix truthy fut @ fut_args fut = args"
    using Future_init_Inr(5) [OF assms(1)] assms(2)
    by (auto simp: self_prefix_def split: option.splits)
  show ?thesis
    using Future_init_Inr(1) [OF assms(1)] k a
    by (simp add: Future_call_eq dict_update_def Let_def)
qed







text \<open>
  Claim C4, at an input where the code departs from it. \<open>echo [''self'', ''x'']\<close> is an
  unbound method; the Future is built with the instance \<open>0\<close>, which is falsy, and the
  argument \<open>3\<close>. Called with no arguments, the Future calls the function with \<open>3\<close> alone:
  line 128 tests the truth value of the instance, not whether there is one. The function
  applied to the arguments bound at construction receives \<open>0\<close> and \<open>3\<close>.
  \<open>Future_call_bound_arguments\<close> above is the claim where the binding is absent or truthy.
\<close>

theorem Future_call_drops_falsy_self:
  "(case Future_init False truthy_int (echo [''self'', ''x'']) [0, 3] [] empty_state of
      (Inr fut, st) \<Rightarrow> fst (Future_call truthy_int fut [] [] st) = Inr ([3], [])
    | (Inl e, st) \<Rightarrow> False) \<and>
   fst (invoke (echo [''self'', ''x'']) [0, 3] [] 0) = Inr ([0, 3], [])"
  by (simp add: Future_init_def new_dict_def copy_copy_def deref_def has_self_cls_arg_def
      is_unbound_def echo_def empty_state_def Future_call_eq self_prefix_def truthy_int_def
      dict_update_def Let_def)

section \<open>Properties of future_in_eager_mode\<close>





section \<open>Properties of np_function\<close>

lemma sequence_leaf_dtypes:
  "sequence_results (map leaf_dtype xs) =
     (if None \<in> set xs then Inl (AttributeError ''dtype'')
      else Inr (map (\<lambda>x. DTypeOf (a_dtype (the x))) xs))"
  by (induction xs) (auto simp: leaf_dtype_def split: option.splits)

lemma wrapper_hit:
  "memo st (input_dtypes_of args) = Some od \<Longrightarrow>
   wrapper func god pf False args kwargs st = (map_sum id Graph (pf kwargs args od), st)"
  by (simp add: wrapper_def Let_def)

lemma wrapper_miss:
  "memo st (input_dtypes_of args) = None \<Longrightarrow>
   wrapper func god pf False args kwargs st =
     (case infer_output_dtypes func god args kwargs (input_dtypes_of args) of
        Inl e \<Rightarrow> (Inl e, st\<lparr>inferences := inferences st @ [(input_dtypes_of args, False)]\<rparr>)
      | Inr od \<Rightarrow> (map_sum id Graph (pf kwargs args od),
           st\<lparr>memo := (memo st)(input_dtypes_of args \<mapsto> od),
              inferences := inferences st @ [(input_dtypes_of args, True)]\<rparr>))"
  by (simp add: wrapper_def Let_def)

lemma wrapper_inv:
  assumes "distinct (map fst (filter snd (inferences st)))"
    and "set (map fst (filter snd (inferences st))) = dom (memo st)"
  shows "distinct (map fst (filter snd (inferences (snd (wrapper func god pf False args kwargs st)))))
    \<and> set (map fst (filter snd (inferences (snd (wrapper func god pf False args kwargs st))))) =
        dom (memo (snd (wrapper func god pf False args kwargs st)))
    \<and> memo st \<subseteq>\<^sub>m memo (snd (wrapper func god pf False args kwargs st))"
proof (cases "memo st (input_dtypes_of args)")
  case (Some od)
  then show ?thesis using assms by (simp add: wrapper_hit)
next
  case None
  then have notin: "input_dtypes_of args \<notin> dom (memo st)" by (simp add: domIff)
  show ?thesis
  proof (cases "infer_output_dtypes func god args kwargs (input_dtypes_of args)")
    case (Inl e)
    with None assms show ?thesis by (simp add: wrapper_miss)
  next
    case (Inr od)
    have "memo st \<subseteq>\<^sub>m (memo st)(input_dtypes_of args \<mapsto> od)"
      using None by (auto simp: map_le_def)
    with Inr None assms notin show ?thesis
      by (simp add: wrapper_miss)
  qed
qed

lemma graph_calls_inv:
  assumes "distinct (map fst (filter snd (inferences st)))"
    and "set (map fst (filter snd (inferences st))) = dom (memo st)"
  shows "distinct (map fst (filter snd (inferences (graph_calls func god pf cs st))))
    \<and> set (map fst (filter snd (inferences (graph_calls func god pf cs st)))) =
        dom (memo (graph_calls func god pf cs st))
    \<and> memo st \<subseteq>\<^sub>m memo (graph_calls func god pf cs st)"
  using assms
proof (induction cs arbitrary: st)
  case Nil
  then show ?case by simp
next
  case (Cons c cs)
  let ?s = "snd (wrapper func god pf False (fst c) (snd c) st)"
  from wrapper_inv [OF Cons.prems, of func god pf "fst c" "snd c"]
  have a: "distinct (map fst (filter snd (inferences ?s)))"
    and b: "set (map fst (filter snd (inferences ?s))) = dom (memo ?s)"
    and c: "memo st \<subseteq>\<^sub>m memo ?s" by simp_all
  from Cons.IH [OF a b] c show ?case
    by (auto intro: map_le_trans)
qed

lemma infer_output_dtypes_None:
  "infer_output_dtypes func None args kwargs ks =
     (case func (map (map_nest (\<lambda>x. np_ones (t_shape x) (t_dtype x))) args) kwargs of
        Inl e \<Rightarrow> Inl e
      | Inr result \<Rightarrow>
          if None \<in> set (flatten result) then Inl (AttributeError ''dtype'')
          else Inr (map (\<lambda>x. DTypeOf (a_dtype (the x))) (flatten result)))"
  by (simp add: infer_output_dtypes_def compute_output_dtypes_def as_numpy_dtype_def
      sequence_leaf_dtypes split: sum.splits)

lemma first_call_t2:
  "wrapper first_arg None py_function_op False [Leaf t2] [] decorated_init =
     (Inr (Graph ([], [Leaf t2], [DTypeOf DT_float32])),
      \<lparr>memo = [[DT_float32] \<mapsto> [DTypeOf DT_float32]],
       inferences = [([DT_float32], True)]\<rparr>)"
  by (simp add: wrapper_def input_dtypes_of_def decorated_init_def infer_output_dtypes_def
      compute_output_dtypes_def first_arg_def leaf_dtype_def np_ones_def as_numpy_dtype_def
      py_function_op_def t2_def Let_def)

text \<open>
  Claim C1, amended. In graph mode the wrapper caches output dtypes per tuple of input
  dtypes. A call whose tuple has no entry runs the inference; when it returns, its
  result is stored under the tuple and used as \<open>Tout\<close>, and the next call with the same
  tuple, whatever its shapes and keyword arguments, uses the stored entry and leaves the
  memo as it is; when it raises, nothing is stored. A call whose tuple has an entry uses
  it. With no \<open>get_output_dtypes\<close> the inferred value is the list of the dtypes of the
  flattened outputs of \<open>func\<close> on arrays of ones; otherwise it is what
  \<open>get_output_dtypes\<close> returns on the input dtypes.
\<close>

theorem wrapper_caches_output_dtypes:
  "(memo st (input_dtypes_of args) = None \<longrightarrow>
      (case infer_output_dtypes func god args kwargs (input_dtypes_of args) of
         Inl e \<Rightarrow>
           fst (wrapper func god pf False args kwargs st) = Inl e \<and>
           memo (snd (wrapper func god pf False args kwargs st)) = memo st
       | Inr od \<Rightarrow>
           fst (wrapper func god pf False args kwargs st) =
             map_sum id Graph (pf kwargs args od) \<and>
           memo (snd (wrapper func god pf False args kwargs st)) =
             (memo st)(input_dtypes_of args \<mapsto> od) \<and>
           (input_dtypes_of args' = input_dtypes_of args \<longrightarrow>
              wrapper func god pf False args' kwargs'
                  (snd (wrapper func god pf False args kwargs st)) =
                (map_sum id Graph (pf kwargs' args' od),
                 snd (wrapper func god pf False args kwargs st))))) \<and>
   (\<forall>od. memo st (input_dtypes_of args) = Some od \<longrightarrow>
      wrapper func god pf False args kwargs st = (map_sum id Graph (pf kwargs args od), st)) \<and>
   infer_output_dtypes func None args kwargs ks =
     (case func (map (map_nest (\<lambda>x. np_ones (t_shape x) (t_dtype x))) args) kwargs of
        Inl e \<Rightarrow> Inl e
      | Inr result \<Rightarrow>
          if None \<in> set (flatten result) then Inl (AttributeError ''dtype'')
          else Inr (map (\<lambda>x. DTypeOf (a_dtype (the x))) (flatten result))) \<and>
   infer_output_dtypes func (Some g) args kwargs ks = g ks"
proof (intro conjI impI allI)
  assume miss: "memo st (input_dtypes_of args) = None"
  show "case infer_output_dtypes func god args kwargs (input_dtypes_of args) of
         Inl e \<Rightarrow>
           fst (wrapper func god pf False args kwargs st) = Inl e \<and>
           memo (snd (wrapper func god pf False args kwargs st)) = memo st
       | Inr od \<Rightarrow>
           fst (wrapper func god pf False args kwargs st) =
             map_sum id Graph (pf kwargs args od) \<and>
           memo (snd (wrapper func god pf False args kwargs st)) =
             (memo st)(input_dtypes_of args \<mapsto> od) \<and>
           (input_dtypes_of args' = input_dtypes_of args \<longrightarrow>
              wrapper func god pf False args' kwargs'
                  (snd (wrapper func god pf False args kwargs st)) =
                (map_sum id Graph (pf kwargs' args' od),
                 snd (wrapper func god pf False args kwargs st)))"
  proof (cases "infer_output_dtypes func god args kwargs (input_dtypes_of args)")
    case (Inl e)
    with miss show ?thesis by (simp add: wrapper_miss)
  next
    case (Inr od)
    with miss show ?thesis by (simp add: wrapper_miss wrapper_hit)
  qed
next
  fix od assume "memo st (input_dtypes_of args) = Some od"
  then show "wrapper func god pf False args kwargs st =
      (map_sum id Graph (pf kwargs args od), st)"
    by (rule wrapper_hit)
next
  show "infer_output_dtypes func None args kwargs ks =
     (case func (map (map_nest (\<lambda>x. np_ones (t_shape x) (t_dtype x))) args) kwargs of
        Inl e \<Rightarrow> Inl e
      | Inr result \<Rightarrow>
          if None \<in> set (flatten result) then Inl (AttributeError ''dtype'')
          else Inr (map (\<lambda>x. DTypeOf (a_dtype (the x))) (flatten result)))"
    by (rule infer_output_dtypes_None)
next
  show "infer_output_dtypes func (Some g) args kwargs ks = g ks"
    by (simp add: infer_output_dtypes_def)
qed

theorem wrapper_caches_output_dtypes_witness:
  "memo decorated_init (input_dtypes_of [Leaf t2]) = None \<and>
   input_dtypes_of [Leaf t3] = input_dtypes_of [Leaf t2] \<and>
   memo (snd (wrapper first_arg None py_function_op False [Leaf t2] [] decorated_init))
        (input_dtypes_of [Leaf t2]) = Some [DTypeOf DT_float32] \<and>
   wrapper first_arg None py_function_op False [Leaf t3] [(''axis'', PyInt 0)]
       (snd (wrapper first_arg None py_function_op False [Leaf t2] [] decorated_init)) =
     (Inr (Graph ([(''axis'', PyInt 0)], [Leaf t3], [DTypeOf DT_float32])),
      snd (wrapper first_arg None py_function_op False [Leaf t2] [] decorated_init))"
proof -
  have k: "input_dtypes_of [Leaf t2] = [DT_float32]" "input_dtypes_of [Leaf t3] = [DT_float32]"
    by (simp_all add: input_dtypes_of_def t2_def t3_def)
  have i: "infer_output_dtypes first_arg None [Leaf t2] [] [DT_float32] =
      Inr [DTypeOf DT_float32]"
    by (simp add: infer_output_dtypes_def compute_output_dtypes_def first_arg_def
        leaf_dtype_def np_ones_def as_numpy_dtype_def t2_def)
  show ?thesis
    using wrapper_caches_output_dtypes [where st = decorated_init and args = "[Leaf t2]"
        and func = first_arg and god = None and kwargs = "[]" and pf = py_function_op
        and args' = "[Leaf t3]" and kwargs' = "[(''axis'', PyInt 0)]"]
    by (simp add: k i py_function_op_def) (simp add: decorated_init_def)
qed

text \<open>
  Claim C1 as stated fails: after a call on a \<open>float32\<close> tensor of shape \<open>[2]\<close> the entry
  is the dtype of the output, not its shape.
\<close>

theorem wrapper_memo_shapes_counterexample:
  "memo (snd (wrapper first_arg None py_function_op False [Leaf t2] [] decorated_init))
        (input_dtypes_of [Leaf t2]) = Some [DTypeOf DT_float32] \<and>
   claimed_output_shapes (first_arg [Leaf (np_ones [2] DT_float32)] []) = Some [ShapeOf [2]] \<and>
   memo (snd (wrapper first_arg None py_function_op False [Leaf t2] [] decorated_init))
        (input_dtypes_of [Leaf t2]) \<noteq>
     claimed_output_shapes (first_arg [Leaf (np_ones [2] DT_float32)] [])"
proof -
  have k: "input_dtypes_of [Leaf t2] = [DT_float32]"
    by (simp add: input_dtypes_of_def t2_def)
  show ?thesis
    by (simp add: first_call_t2 k claimed_output_shapes_def first_arg_def np_ones_def)
qed

text \<open>
  Claim C6, amended. After any sequence of graph-mode calls of a decorated function, the
  inferences that returned are for pairwise distinct tuples of input dtypes, and these
  tuples are exactly the keys of the memo; any further sequence of calls only extends the
  memo; a call whose tuple is in the memo runs no inference, changes nothing and passes
  the stored entry as \<open>Tout\<close>; a call whose tuple is not in the memo runs one inference.
\<close>

theorem graph_calls_memoize:
  "(let st = graph_calls func god pf cs decorated_init;
        st' = graph_calls func god pf cs' st
    in distinct (map fst (filter snd (inferences st))) \<and>
       set (map fst (filter snd (inferences st))) = dom (memo st) \<and>
       memo st \<subseteq>\<^sub>m memo st' \<and>
       (\<forall>od. memo st (input_dtypes_of args) = Some od \<longrightarrow>
          wrapper func god pf False args kwargs st =
            (map_sum id Graph (pf kwargs args od), st)) \<and>
       (memo st (input_dtypes_of args) = None \<longrightarrow>
          inferences (snd (wrapper func god pf False args kwargs st)) =
            inferences st @ [(input_dtypes_of args,
              \<not> isl (infer_output_dtypes func god args kwargs (input_dtypes_of args)))]))"
proof -
  let ?st = "graph_calls func god pf cs decorated_init"
  have i: "distinct (map fst (filter snd (inferences decorated_init)))"
    "set (map fst (filter snd (inferences decorated_init))) = dom (memo decorated_init)"
    by (simp_all add: decorated_init_def)
  from graph_calls_inv [OF i, of func god pf cs]
  have a: "distinct (map fst (filter snd (inferences ?st)))"
    and b: "set (map fst (filter snd (inferences ?st))) = dom (memo ?st)" by simp_all
  from graph_calls_inv [OF a b, of func god pf cs']
  have c: "memo ?st \<subseteq>\<^sub>m memo (graph_calls func god pf cs' ?st)" by simp
  have d: "inferences (snd (wrapper func god pf False args kwargs ?st)) =
            inferences ?st @ [(input_dtypes_of args,
              \<not> isl (infer_output_dtypes func god args kwargs (input_dtypes_of args)))]"
    if "memo ?st (input_dtypes_of args) = None"
    using that
    by (cases "infer_output_dtypes func god args kwargs (input_dtypes_of args)")
      (simp_all add: wrapper_miss)
  show ?thesis
    unfolding Let_def using a b c d wrapper_hit by blast
qed

theorem graph_calls_memoize_witness:
  "inferences (graph_calls first_arg None py_function_op
       [([Leaf t2], []), ([Leaf t3], []), ([Leaf t2], [])] decorated_init) =
     [([DT_float32], True)] \<and>
   memo (graph_calls first_arg None py_function_op [([Leaf t2], [])] decorated_init)
       (input_dtypes_of [Leaf t3]) = Some [DTypeOf DT_float32] \<and>
   fst (wrapper first_arg None py_function_op False [Leaf t3] []
       (graph_calls first_arg None py_function_op [([Leaf t2], [])] decorated_init)) =
     Inr (Graph ([], [Leaf t3], [DTypeOf DT_float32])) \<and>
   memo decorated_init (input_dtypes_of [Leaf t2]) = None \<and>
   inferences (snd (wrapper first_arg None py_function_op False [Leaf t2] [] decorated_init)) =
     [([DT_float32], True)]"
proof -
  have k: "input_dtypes_of [Leaf t2] = [DT_float32]" "input_dtypes_of [Leaf t3] = [DT_float32]"
    by (simp_all add: input_dtypes_of_def t2_def t3_def)
  have g: "graph_calls first_arg None py_function_op [([Leaf t2], [])] decorated_init =
      \<lparr>memo = [[DT_float32] \<mapsto> [DTypeOf DT_float32]], inferences = [([DT_float32], True)]\<rparr>"
    by (simp add: first_call_t2)
  show ?thesis
    using graph_calls_memoize [where func = first_arg and god = None and pf = py_function_op
        and cs = "[([Leaf t2], [])]" and cs' = "[([Leaf t3], [])]" and args = "[Leaf t3]"
        and kwargs = "[]"]
      graph_calls_memoize [where func = first_arg and god = None and pf = py_function_op
        and cs = "[]" and cs' = "[]" and args = "[Leaf t2]" and kwargs = "[]"]
    by (simp add: g first_call_t2 wrapper_hit k py_function_op_def Let_def)
       (simp add: decorated_init_def)
qed

text \<open>
  Claim C6 as stated fails: when the inference raises, nothing is stored, and the next
  call with the same tuple of input dtypes runs the inference again.
\<close>

theorem graph_calls_failed_inference_counterexample:
  "inferences (graph_calls failing_func None py_function_op
       [([Leaf t2], []), ([Leaf t2], [])] decorated_init) =
     [([DT_float32], False), ([DT_float32], False)] \<and>
   \<not> distinct (map fst (inferences (graph_calls failing_func None py_function_op
       [([Leaf t2], []), ([Leaf t2], [])] decorated_init)))"
  by (simp add: wrapper_def input_dtypes_of_def decorated_init_def infer_output_dtypes_def
      compute_output_dtypes_def failing_func_def t2_def)

text \<open>
  Claim C7, amended. In eager mode the wrapper converts every positional tensor argument
  with \<open>numpy\<close>, calls the function on the converted arguments and the keyword arguments
  as they are, and converts every output that is not \<open>None\<close> with \<open>convert_to_tensor\<close>;
  the memo is not touched. The conversions keep shape, dtype and elements.
\<close>

theorem wrapper_eager_converts:
  "wrapper func god pf True args kwargs st =
     (case func (map (map_nest numpy) args) kwargs of
        Inl e \<Rightarrow> (Inl e, st)
      | Inr result \<Rightarrow> (Inr (Eager (map_nest convert result)), st)) \<and>
   convert None = None \<and>
   convert (Some a) = Some (convert_to_tensor a) \<and>
   convert_to_tensor (numpy t) = t \<and>
   a_shape (numpy t) = t_shape t \<and> a_dtype (numpy t) = t_dtype t \<and>
   a_data (numpy t) = t_data t"
  by (cases t) (simp add: wrapper_def convert_def)

theorem wrapper_eager_converts_witness:
  "wrapper first_arg None py_function_op True [Leaf t2] [(''axis'', PyInt 0)] decorated_init =
     (Inr (Eager (Leaf (Some t2))), decorated_init) \<and>
   first_arg [Leaf (numpy t2)] [(''axis'', PyInt 0)] = Inr (Leaf (Some (numpy t2))) \<and>
   convert (Some (numpy t2)) = Some t2"
  using wrapper_eager_converts [where func = first_arg and god = None and pf = py_function_op
      and args = "[Leaf t2]" and kwargs = "[(''axis'', PyInt 0)]" and st = decorated_init
      and a = "numpy t2" and t = t2]
  by (simp add: first_arg_def)

text \<open>
  Claim C7 as stated fails for a tensor passed by keyword: the function receives the
  tensor, not its numpy value.
\<close>

theorem wrapper_eager_kwargs_counterexample:
  "fst (wrapper kw_spy None py_function_op True [] [(''x'', PyTensor t2)] decorated_init) =
     Inr (Eager (Leaf (Some (Tensor [] DT_int32 [1])))) \<and>
   map_sum id (\<lambda>r. Eager (map_nest convert r))
       (kw_spy [] (claimed_numpy_kwargs [(''x'', PyTensor t2)])) =
     Inr (Eager (Leaf (Some (Tensor [] DT_int32 [0])))) \<and>
   fst (wrapper kw_spy None py_function_op True [] [(''x'', PyTensor t2)] decorated_init) \<noteq>
     map_sum id (\<lambda>r. Eager (map_nest convert r))
       (kw_spy [] (claimed_numpy_kwargs [(''x'', PyTensor t2)]))"
  by (simp add: wrapper_def kw_spy_def claimed_numpy_kwargs_def is_tensor_val_def convert_def
      t2_def)

section \<open>Properties of create_train_step\<close>

lemma pack_from_flatten:
  "pack_from (s :: 'a nest) (flatten s @ rest) = (s, rest)"
  "pack_list_from (ss :: 'a nest list) (concat (map flatten ss) @ rest) = (ss, rest)"
  by (induction s "flatten s @ rest" and ss "concat (map flatten ss) @ rest"
      arbitrary: rest and rest rule: pack_from_pack_list_from.induct) auto

lemma pack_sequence_as_flatten: "pack_sequence_as s (flatten s) = Inr s"
  using pack_from_flatten(1) [of s "[]"] by (simp add: pack_sequence_as_def)

lemma flatten_pack_from:
  "length (flatten (s :: 'a nest)) \<le> length (ys :: 'b list) \<Longrightarrow>
     flatten (fst (pack_from s ys)) = take (length (flatten s)) ys \<and>
     snd (pack_from s ys) = drop (length (flatten s)) ys"
  "length (concat (map flatten (ss :: 'a nest list))) \<le> length (ys :: 'b list) \<Longrightarrow>
     concat (map flatten (fst (pack_list_from ss ys))) = take (length (concat (map flatten ss))) ys \<and>
     snd (pack_list_from ss ys) = drop (length (concat (map flatten ss))) ys"
proof (induction s ys and ss ys rule: pack_from_pack_list_from.induct)
  case (1 x ys)
  then show ?case by (cases ys) auto
next
  case (2 ns ys)
  then show ?case by (auto split: prod.splits)
next
  case (3 ys)
  then show ?case by simp
next
  case (4 n ns ys)
  obtain m r1 where p1: "pack_from n ys = (m, r1)" by (cases "pack_from n ys")
  obtain ms r2 where p2: "pack_list_from ns r1 = (ms, r2)" by (cases "pack_list_from ns r1")
  from 4(3) have le1: "length (flatten n) \<le> length ys" by simp
  from 4(1) [OF le1] p1 have a: "flatten m = take (length (flatten n)) ys"
    and b: "r1 = drop (length (flatten n)) ys" by simp_all
  from 4(3) b have le2: "length (concat (map flatten ns)) \<le> length r1" by simp
  from 4(2) [OF p1 [symmetric] refl le2] p2
  have c: "concat (map flatten ms) = take (length (concat (map flatten ns))) r1"
    and d: "r2 = drop (length (concat (map flatten ns))) r1" by simp_all
  show ?case
    using p1 p2 a b c d by (simp add: take_add add.commute)
qed

lemma map_m_length:
  "map_m f xs h = (Inr ys, h') \<Longrightarrow> length ys = length xs"
proof (induction xs arbitrary: h ys h')
  case Nil
  then show ?case by simp
next
  case (Cons x xs)
  then show ?case
    by (auto simp: then_do_def split: prod.splits sum.splits)
qed


lemma then_do_Inr: "then_do (Inr x, h) k = k x h"
  by (simp add: then_do_def)

lemma then_do_Inl: "then_do (Inl e, h) k = (Inl e, h)"
  by (simp add: then_do_def)

lemma train_step_function_init:
  "Future_init py2 truthy (train_step_function fw py2' p gs) [] kw st =
     (Inr \<lparr>fut_func_or_method = train_step_function fw py2' p gs, fut_args = [],
           fut_kwargs = Suc (length (heap st)), fut_arg_names = [], fut_self = None\<rparr>,
      st\<lparr>heap := heap st @ [kw, kw]\<rparr>)"
  by (simp add: Future_init_def train_step_function_def has_self_cls_arg_def new_dict_def
      copy_copy_def deref_def nth_append)

lemma create_train_step_eager:
  assumes "tf_executing_eagerly fw (host st)"
    and "loss p = LossFn is_future f"
    and "total_loss_fn p \<noteq> TotalLossFnNotCallable"
  shows "create_train_step fw py2 truthy p st =
     (let gs = fst (resolve_global_step fw p (host st));
          h1 = snd (resolve_global_step fw p (host st));
          h2 = (if is_future then h1
                else tf_logging_warning fw ''loss should be an instance of eager_utils.Future'' h1);
          kw = [(''_loss'', KwLoss (loss p)),
                (''_total_loss_fn'', KwTotalLossFn (TotalLossFn
                   (case total_loss_fn p of TotalLossFn g \<Rightarrow> g | _ \<Rightarrow> identity_fn))),
                (''_variables_to_train'', KwVariables (variables_to_train p))]
      in (Inr (Deferred \<lparr>fut_func_or_method = train_step_function fw py2 p gs, fut_args = [],
              fut_kwargs = Suc (length (heap st)), fut_arg_names = [], fut_self = None\<rparr>),
          \<lparr>heap = heap st @ [kw, kw], host = h2\<rparr>))"
  using assms
  by (cases "total_loss_fn p")
     (simp_all add: create_train_step_def train_step_function_init Let_def split: prod.splits)


lemma check_loss_ok:
  assumes "flatten loss_value \<noteq> []"
    and "tf_check_numerics fw (hd (flatten loss_value)) ''Loss is inf or nan''
           (tf_name_scope_enter fw ''train_op'' h) = (Inr (hd (flatten loss_value)), h')"
  shows "check_loss fw loss_value h = (Inr loss_value, tf_name_scope_exit fw h')"
proof -
  obtain x xs where f: "flatten loss_value = x # xs"
    using assms(1) by (cases "flatten loss_value") auto
  have "pack_sequence_as loss_value (x # xs) = Inr loss_value"
    using pack_sequence_as_flatten [of loss_value] f by simp
  with assms(2) f show ?thesis
    by (simp add: check_loss_def then_do_def finally_do_def)
qed

text \<open>
  The train step when every operation of the host returns. \<open>optimizer.apply_gradients\<close>
  receives the gradients paired with the variables as \<open>transform_grads_fn\<close> returned
  them (as \<open>zip\<close> did, without one); with \<open>summarize_gradients\<close> it receives what the
  loop of \<open>add_gradients_summaries\<close> has left of them, which for an iterator is nothing.
\<close>

lemma train_step_returns:
  assumes "kwargs = [(''_loss'', KwLoss (LossFn is_future f)),
                     (''_total_loss_fn'', KwTotalLossFn (TotalLossFn tlf)),
                     (''_variables_to_train'', KwVariables vt)]"
    and "f args (tf_tape_enter fw h) = (Inr loss_value, h1)"
    and "tlf loss_value h1 = (Inr total_loss_value, h2)"
    and "(case vt of
            VariablesNone \<Rightarrow>
              (Inr (flatten (tf_watched_variables fw (tf_tape_exit fw h2))), tf_tape_exit fw h2)
          | VariablesFn g \<Rightarrow>
              (case g (tf_tape_exit fw h2) of
                 (Inl e, h') \<Rightarrow> (Inl e, h')
               | (Inr vs, h') \<Rightarrow> (Inr (flatten vs), h'))
          | Variables vs \<Rightarrow> (Inr (flatten vs), tf_tape_exit fw h2)) = (Inr vars, h3)"
    and "tf_gradient fw total_loss_value vars h3 = (Inr grads, h4)"
    and "(case transform_grads_fn p of
            None \<Rightarrow> (Inr (py_zip py2 grads vars), h4)
          | Some transform \<Rightarrow> transform (py_zip py2 grads vars) h4) = (Inr grads_and_vars, h5)"
    and "h6 = (if summarize_gradients p
               then tf_name_scope_exit fw
                      (add_gradients_summaries fw (items grads_and_vars)
                         (tf_name_scope_enter fw ''summarize_grads'' h5))
               else h5)"
    and "applied = (if summarize_gradients p
                    then (case grads_and_vars of PyList xs \<Rightarrow> xs | PyIterator xs \<Rightarrow> [])
                    else items grads_and_vars)"
    and "check_numerics p \<Longrightarrow> flatten loss_value \<noteq> [] \<and>
           tf_check_numerics fw (hd (flatten loss_value)) ''Loss is inf or nan''
             (tf_name_scope_enter fw ''train_op'' h6) = (Inr (hd (flatten loss_value)), h7)"
    and "tf_apply_gradients fw (optimizer p) applied gs
           (if check_numerics p then tf_name_scope_exit fw h7 else h6) = (res, h8)"
  shows "train_step fw py2 p gs args kwargs h = (map_sum id (\<lambda>u. loss_value) res, h8)"
proof -
  have c: "check_numerics p \<Longrightarrow>
      check_loss fw loss_value h6 = (Inr loss_value, tf_name_scope_exit fw h7)"
    using assms(9) check_loss_ok [of loss_value fw h6 h7] by auto
  have v: "resolve_variables fw (KwVariables vt) (tf_tape_exit fw h2) = (Inr vars, h3)"
    using assms(4)
    by (cases vt) (auto simp: resolve_variables_def then_do_def split: prod.splits sum.splits)
  have s: "(if summarize_gradients p
            then (Inr (used_up grads_and_vars),
                  tf_name_scope_exit fw
                    (add_gradients_summaries fw (items grads_and_vars)
                       (tf_name_scope_enter fw ''summarize_grads'' h5)))
            else (Inr grads_and_vars, h5)) =
           (Inr (if summarize_gradients p then used_up grads_and_vars else grads_and_vars), h6)"
    by (simp add: assms(7))
  have i: "items (if summarize_gradients p then used_up grads_and_vars else grads_and_vars) =
      applied"
    by (cases grads_and_vars) (simp_all add: assms(8))
  have k: "kwargs_pop ''_loss'' kwargs =
        Inr (KwLoss (LossFn is_future f),
             [(''_total_loss_fn'', KwTotalLossFn (TotalLossFn tlf)),
              (''_variables_to_train'', KwVariables vt)])"
      "kwargs_pop ''_total_loss_fn''
           [(''_total_loss_fn'', KwTotalLossFn (TotalLossFn tlf)),
            (''_variables_to_train'', KwVariables vt)] =
        Inr (KwTotalLossFn (TotalLossFn tlf), [(''_variables_to_train'', KwVariables vt)])"
      "kwargs_pop ''_variables_to_train'' [(''_variables_to_train'', KwVariables vt)] =
        Inr (KwVariables vt, [])"
    by (simp_all add: assms(1) kwargs_pop_def dict_pop_def)
  have l: "finally_do
          (then_do (call_loss (KwLoss (LossFn is_future f)) args (tf_tape_enter fw h))
             (\<lambda>loss_value h.
                then_do (call_total_loss_fn (KwTotalLossFn (TotalLossFn tlf)) loss_value h)
                  (\<lambda>total_loss_value h. (Inr (loss_value, total_loss_value), h))))
          (tf_tape_exit fw) = (Inr (loss_value, total_loss_value), tf_tape_exit fw h2)"
    by (simp add: call_loss_def call_total_loss_fn_def assms(2,3) then_do_def finally_do_def)
  show ?thesis
    unfolding train_step_def
    using assms(10) c
    by (cases "check_numerics p"; cases res)
       (simp_all add: k l v s i assms(5,6) then_do_Inr then_do_Inl)
qed

lemma graph_train_step_returns:
  assumes "(case loss p of LossFn is_future f \<Rightarrow> f [] h | LossTensors l \<Rightarrow> (Inr l, h)) =
             (Inr loss', h1)"
    and "(case variables_to_train p of
            VariablesFn f \<Rightarrow> then_do (f h1) (\<lambda>vars h. (Inr (Variables vars), h))
          | v \<Rightarrow> (Inr v, h1)) = (Inr variables_to_train', h2)"
    and "tlf loss' (tf_control_dependencies_enter fw (flatten loss') h2) = (Inr total_loss, h3)"
    and "tf_create_train_op fw total_loss (p\<lparr>variables_to_train := variables_to_train'\<rparr>) h3 =
           (Inr train_op, h4)"
    and "map_m (\<lambda>t. tf_identity fw t ''loss'') (flatten loss')
           (tf_control_dependencies_enter fw [train_op] (tf_control_dependencies_exit fw h4)) =
           (Inr ids, h5)"
  shows "graph_train_step fw p tlf h =
           (Inr (fst (pack_from loss' ids)), tf_control_dependencies_exit fw h5)"
    and "flatten (fst (pack_from loss' ids)) = ids"
    and "ids = flatten loss' \<Longrightarrow> fst (pack_from loss' ids) = loss'"
proof -
  have len: "length ids = length (flatten loss')"
    using map_m_length [OF assms(5)] .
  then have pk: "pack_sequence_as loss' ids = Inr (fst (pack_from loss' ids))"
    by (simp add: pack_sequence_as_def)
  show "graph_train_step fw p tlf h =
           (Inr (fst (pack_from loss' ids)), tf_control_dependencies_exit fw h5)"
    unfolding graph_train_step_def
    by (simp add: assms pk then_do_def finally_do_def map_structure_m_def)
  show "flatten (fst (pack_from loss' ids)) = ids"
    using flatten_pack_from(1) [of loss' ids] len by simp
  show "fst (pack_from loss' ids) = loss'" if "ids = flatten loss'"
    using pack_from_flatten(1) [of loss' "[]"] that by simp
qed


lemma create_train_step_graph:
  assumes "\<not> tf_executing_eagerly fw (host st)"
    and "total_loss_fn p \<noteq> TotalLossFnNotCallable"
  shows "create_train_step fw py2 truthy p st =
     (map_sum id Outputs
        (fst (graph_train_step fw p
               (case total_loss_fn p of TotalLossFn g \<Rightarrow> g | _ \<Rightarrow> identity_fn) (host st))),
      st\<lparr>host := snd (graph_train_step fw p
               (case total_loss_fn p of TotalLossFn g \<Rightarrow> g | _ \<Rightarrow> identity_fn) (host st))\<rparr>)"
  using assms
  by (cases "total_loss_fn p")
     (simp_all add: create_train_step_def Let_def split: prod.splits sum.splits)

lemma Future_call_train_step:
  assumes "fut = \<lparr>fut_func_or_method = train_step_function fw py2 p gs, fut_args = [],
              fut_kwargs = r, fut_arg_names = [], fut_self = None\<rparr>"
  shows "Future_call truthy fut args [] st =
     (fst (train_step fw py2 p gs args (deref st r) (host st)),
      \<lparr>heap = heap st @ [deref st r],
       host = snd (train_step fw py2 p gs args (deref st r) (host st))\<rparr>)"
  by (simp add: assms Future_call_eq self_prefix_def train_step_function_def dict_update_def
      Let_def)


text \<open>
  \<open>create_train_step\<close> in graph mode, when the host operations return: the result is
  the structure of the loss (called first when it is a function) in which every tensor
  \<open>t\<close> is replaced by \<open>tf.identity(t, 'loss')\<close>, created under the control dependency
  of the train op; the train op is created from \<open>total_loss_fn(loss)\<close> under the control
  dependencies of the loss tensors. Where \<open>tf.identity\<close> yields its argument, the result
  is the loss itself.
\<close>

lemma create_train_step_graph_result:
  assumes "\<not> tf_executing_eagerly fw (host st)"
    and "total_loss_fn p \<noteq> TotalLossFnNotCallable"
    and "(case loss p of LossFn is_future f \<Rightarrow> f [] (host st)
          | LossTensors l \<Rightarrow> (Inr l, host st)) = (Inr loss', g1)"
    and "(case variables_to_train p of
            VariablesFn f \<Rightarrow>
              (case f g1 of (Inl e, h) \<Rightarrow> (Inl e, h)
               | (Inr vars, h) \<Rightarrow> (Inr (Variables vars), h))
          | v \<Rightarrow> (Inr v, g1)) = (Inr variables_to_train', g2)"
    and "(case total_loss_fn p of
            TotalLossFn g \<Rightarrow> g loss' (tf_control_dependencies_enter fw (flatten loss') g2)
          | _ \<Rightarrow> (Inr loss', tf_control_dependencies_enter fw (flatten loss') g2)) =
         (Inr total_loss, g3)"
    and "tf_create_train_op fw total_loss (p\<lparr>variables_to_train := variables_to_train'\<rparr>) g3 =
           (Inr train_op, g4)"
    and "map_m (\<lambda>t. tf_identity fw t ''loss'') (flatten loss')
           (tf_control_dependencies_enter fw [train_op] (tf_control_dependencies_exit fw g4)) =
           (Inr ids, g5)"
  shows "create_train_step fw py2 truthy p st =
           (Inr (Outputs (fst (pack_from loss' ids))),
            st\<lparr>host := tf_control_dependencies_exit fw g5\<rparr>)"
    and "flatten (fst (pack_from loss' ids)) = ids"
    and "ids = flatten loss' \<Longrightarrow> fst (pack_from loss' ids) = loss'"
proof -
  have v: "(case variables_to_train p of
            VariablesFn f \<Rightarrow> then_do (f g1) (\<lambda>vars h. (Inr (Variables vars), h))
          | v \<Rightarrow> (Inr v, g1)) = (Inr variables_to_train', g2)"
    using assms(4)
    by (auto simp: then_do_def split: variables_arg.splits prod.splits sum.splits)
  have t: "(case total_loss_fn p of TotalLossFn g \<Rightarrow> g | _ \<Rightarrow> identity_fn) loss'
        (tf_control_dependencies_enter fw (flatten loss') g2) = (Inr total_loss, g3)"
    using assms(5) by (cases "total_loss_fn p") (auto simp: identity_fn_def)
  note g = graph_train_step_returns
    [where tlf = "case total_loss_fn p of TotalLossFn g \<Rightarrow> g | _ \<Rightarrow> identity_fn",
     OF assms(3) v t assms(6,7)]
  show "create_train_step fw py2 truthy p st =
      (Inr (Outputs (fst (pack_from loss' ids))),
       st\<lparr>host := tf_control_dependencies_exit fw g5\<rparr>)"
    by (simp add: create_train_step_graph [OF assms(1,2)] g(1))
  show "flatten (fst (pack_from loss' ids)) = ids" by (rule g(2))
  show "fst (pack_from loss' ids) = loss'" if "ids = flatten loss'"
    using that by (rule g(3))
qed

text \<open>
  \<open>create_train_step\<close> in eager mode returns a Future of \<open>train_step\<close>. Called with
  arguments \<open>args\<close>, when the host operations return, the Future evaluates the loss on
  them and then \<open>total_loss_fn\<close> inside the gradient tape, computes the gradients of the
  total loss with respect to the variables to train, passes the first leaf of the loss
  through \<open>tf.check_numerics\<close> when asked to, hands \<open>applied\<close> to
  \<open>optimizer.apply_gradients\<close> with the global step, and returns the loss value.
  \<open>applied\<close> is every gradient paired with its variable, unless \<open>summarize_gradients\<close>
  is set and the pairs are an iterator: then it is empty.
\<close>

lemma create_train_step_eager_result:
  assumes "tf_executing_eagerly fw (host st)"
    and "loss p = LossFn is_future f"
    and "total_loss_fn p \<noteq> TotalLossFnNotCallable"
    and "create_train_step fw py2 truthy p st = (r, st')"
    and "gs = (case global_step p of
                 USE_GLOBAL_STEP \<Rightarrow> Some (fst (tf_get_or_create_global_step fw (host st)))
               | GlobalStep g \<Rightarrow> g)"
    and "f args (tf_tape_enter fw (host st')) = (Inr loss_value, h1)"
    and "(case total_loss_fn p of TotalLossFn g \<Rightarrow> g loss_value h1
          | _ \<Rightarrow> (Inr loss_value, h1)) = (Inr total_loss_value, h2)"
    and "(case variables_to_train p of
            VariablesNone \<Rightarrow>
              (Inr (flatten (tf_watched_variables fw (tf_tape_exit fw h2))), tf_tape_exit fw h2)
          | VariablesFn g \<Rightarrow>
              (case g (tf_tape_exit fw h2) of
                 (Inl e, h') \<Rightarrow> (Inl e, h')
               | (Inr vs, h') \<Rightarrow> (Inr (flatten vs), h'))
          | Variables vs \<Rightarrow> (Inr (flatten vs), tf_tape_exit fw h2)) = (Inr vars, h3)"
    and "tf_gradient fw total_loss_value vars h3 = (Inr grads, h4)"
    and "(case transform_grads_fn p of
            None \<Rightarrow> (Inr (py_zip py2 grads vars), h4)
          | Some transform \<Rightarrow> transform (py_zip py2 grads vars) h4) = (Inr grads_and_vars, h5)"
    and "h6 = (if summarize_gradients p
               then tf_name_scope_exit fw
                      (add_gradients_summaries fw (items grads_and_vars)
                         (tf_name_scope_enter fw ''summarize_grads'' h5))
               else h5)"
    and "applied = (if summarize_gradients p
                    then (case grads_and_vars of PyList xs \<Rightarrow> xs | PyIterator xs \<Rightarrow> [])
                    else items grads_and_vars)"
    and "check_numerics p \<Longrightarrow> flatten loss_value \<noteq> [] \<and>
           tf_check_numerics fw (hd (flatten loss_value)) ''Loss is inf or nan''
             (tf_name_scope_enter fw ''train_op'' h6) = (Inr (hd (flatten loss_value)), h7)"
    and "tf_apply_gradients fw (optimizer p) applied gs
           (if check_numerics p then tf_name_scope_exit fw h7 else h6) = (Inr (), h8)"
  shows "case r of
       Inr (Deferred fut) \<Rightarrow>
         fut_func_or_method fut = train_step_function fw py2 p gs \<and>
         Future_call truthy fut args [] st' =
           (Inr loss_value, \<lparr>heap = heap st' @ [deref st' (fut_kwargs fut)], host = h8\<rparr>)
     | _ \<Rightarrow> False"
proof -
  let ?tlf = "case total_loss_fn p of TotalLossFn g \<Rightarrow> g | _ \<Rightarrow> identity_fn"
  let ?kw = "[(''_loss'', KwLoss (LossFn is_future f)),
              (''_total_loss_fn'', KwTotalLossFn (TotalLossFn ?tlf)),
              (''_variables_to_train'', KwVariables (variables_to_train p))]"
  let ?fut = "\<lparr>fut_func_or_method = train_step_function fw py2 p gs, fut_args = [],
              fut_kwargs = Suc (length (heap st)), fut_arg_names = [], fut_self = None\<rparr>"
  have gs: "fst (resolve_global_step fw p (host st)) = gs"
    by (simp add: assms(5) resolve_global_step_def split: global_step_arg.splits)
  from create_train_step_eager [OF assms(1-3), of py2 truthy] assms(4) assms(2) gs
  have r: "r = Inr (Deferred ?fut)" and h: "heap st' = heap st @ [?kw, ?kw]"
    by (simp_all add: Let_def)
  have d: "deref st' (Suc (length (heap st))) = ?kw"
    by (simp add: deref_def h nth_append)
  have tl: "?tlf loss_value h1 = (Inr total_loss_value, h2)"
    using assms(7) by (cases "total_loss_fn p") (auto simp: identity_fn_def)
  have t: "train_step fw py2 p gs args ?kw (host st') = (Inr loss_value, h8)"
    using train_step_returns
        [where is_future = is_future and f = f and kwargs = ?kw and args = args and fw = fw
           and h = "host st'" and p = p and ?py2.0 = py2 and gs = gs
           and tlf = ?tlf and vt = "variables_to_train p" and loss_value = loss_value
           and total_loss_value = total_loss_value and vars = vars and grads = grads
           and grads_and_vars = grads_and_vars and applied = applied
           and res = "Inr ()"
           and ?h1.0 = h1 and ?h2.0 = h2 and ?h3.0 = h3 and ?h4.0 = h4 and ?h5.0 = h5
           and ?h6.0 = h6 and ?h7.0 = h7 and ?h8.0 = h8,
         OF refl assms(6) tl assms(8-12) _ assms(14)]
      assms(13)
    by simp
  show ?thesis
    by (simp add: r Future_call_train_step [OF refl] d t)
qed

text \<open>
  Claim C3, at an input where the code departs from it. \<open>create_train_step(loss,
  optimizer, summarize_gradients=True)\<close> in eager mode returns a Future; called with the
  arguments \<open>3\<close> and \<open>4\<close>, the Future evaluates the loss under the tape, computes the
  gradients of the total loss with respect to the variables \<open>w\<close> and \<open>b\<close>, writes the
  summaries of both gradients and returns the loss value. On Python 3 (first conjunct)
  \<open>optimizer.apply_gradients\<close> is then called with no gradient and no variable: the loop
  of \<open>add_gradients_summaries\<close> has used up the iterator that \<open>zip\<close> returned.
  On Python 2 (second conjunct), where \<open>zip\<close> returns a list, it is called with the
  gradients of \<open>w\<close> and \<open>b\<close>. \<open>create_train_step_eager_result\<close> and
  \<open>create_train_step_graph_result\<close> above are the claim where it holds.
\<close>

theorem train_step_summaries_use_up_gradients:
  "(case create_train_step demo_fw False truthy_int summaries_args initial_state of
      (Inr (Deferred fut), st) \<Rightarrow>
        fst (Future_call truthy_int fut [3, 4] [] st) = Inr (Seq [Leaf 7, Leaf 7]) \<and>
        host (snd (Future_call truthy_int fut [3, 4] [] st)) =
          [Event ''get_or_create_global_step'' [] [''global_step''],
           Event ''tape'' [] [], Event ''loss'' [3, 4] [], Event ''end tape'' [] [],
           Event ''gradient'' [7, 7] [''w'', ''b''],
           Event ''summarize_grads'' [] [],
           Event ''histogram'' [1] [], Event ''scalar'' [0] [],
           Event ''histogram'' [1] [], Event ''scalar'' [0] [],
           Event ''end name_scope'' [] [],
           Event ''train_op'' [] [], Event ''check_numerics'' [7] [],
           Event ''end name_scope'' [] [],
           Event ''apply_gradients'' [] []]
    | _ \<Rightarrow> False) \<and>
   (case create_train_step demo_fw True truthy_int summaries_args initial_state of
      (Inr (Deferred fut), st) \<Rightarrow>
        fst (Future_call truthy_int fut [3, 4] [] st) = Inr (Seq [Leaf 7, Leaf 7]) \<and>
        host (snd (Future_call truthy_int fut [3, 4] [] st)) =
          [Event ''get_or_create_global_step'' [] [''global_step''],
           Event ''tape'' [] [], Event ''loss'' [3, 4] [], Event ''end tape'' [] [],
           Event ''gradient'' [7, 7] [''w'', ''b''],
           Event ''summarize_grads'' [] [],
           Event ''histogram'' [1] [], Event ''scalar'' [0] [],
           Event ''histogram'' [1] [], Event ''scalar'' [0] [],
           Event ''end name_scope'' [] [],
           Event ''train_op'' [] [], Event ''check_numerics'' [7] [],
           Event ''end name_scope'' [] [],
           Event ''apply_gradients'' [] [''w'', ''b'']]
    | _ \<Rightarrow> False)"
proof -
  have c: "create_train_step demo_fw py2 truthy_int summaries_args initial_state =
     (Inr (Deferred \<lparr>fut_func_or_method =
              train_step_function demo_fw py2 summaries_args (Some ''global_step''),
            fut_args = [], fut_kwargs = 1, fut_arg_names = [], fut_self = None\<rparr>),
      \<lparr>heap = [demo_train_kwargs, demo_train_kwargs],
       host = [Event ''get_or_create_global_step'' [] [''global_step'']]\<rparr>)" for py2
    by (simp add: create_train_step_def train_step_function_init resolve_global_step_def
        summaries_args_def demo_args_def demo_fw_def initial_state_def demo_train_kwargs_def
        Let_def)
  have t: "train_step demo_fw py2 summaries_args (Some ''global_step'') [3, 4] demo_train_kwargs
        [Event ''get_or_create_global_step'' [] [''global_step'']] =
     (Inr (Seq [Leaf 7, Leaf 7]),
      [Event ''get_or_create_global_step'' [] [''global_step''],
       Event ''tape'' [] [], Event ''loss'' [3, 4] [], Event ''end tape'' [] [],
       Event ''gradient'' [7, 7] [''w'', ''b''],
       Event ''summarize_grads'' [] [],
       Event ''histogram'' [1] [], Event ''scalar'' [0] [],
       Event ''histogram'' [1] [], Event ''scalar'' [0] [],
       Event ''end name_scope'' [] [],
       Event ''train_op'' [] [], Event ''check_numerics'' [7] [],
       Event ''end name_scope'' [] [],
       Event ''apply_gradients'' [] (if py2 then [''w'', ''b''] else [])])" for py2
    by (simp add: train_step_def demo_train_kwargs_def kwargs_pop_def dict_pop_def
        call_loss_def call_total_loss_fn_def resolve_variables_def identity_fn_def
        check_loss_def pack_sequence_as_def py_zip_def then_do_def finally_do_def
        summaries_args_def demo_args_def demo_fw_def demo_loss_def replace_colon_def)
  show ?thesis
    by (simp add: c Future_call_train_step [OF refl] deref_def t)
qed

text \<open>
  Claim C9, amended. A \<open>total_loss_fn\<close> that is neither \<open>None\<close> nor callable makes
  \<open>create_train_step\<close> raise ValueError in any mode, and the state is what it was. In
  eager mode a loss that is not callable makes it raise ValueError, and the state is what
  it was but for one operation of the host that line 273 has performed before the loss
  is looked at: \<open>tf.train.get_or_create_global_step()\<close>, when \<open>global_step\<close> was left
  at its default. With a \<open>global_step\<close> given, the state is what it was. In both cases
  no loss is evaluated and no gradient is computed or applied.
\<close>

theorem create_train_step_rejects_before_training:
  "(total_loss_fn p = TotalLossFnNotCallable \<longrightarrow>
      create_train_step fw py2 truthy p st =
        (Inl (ValueError ''`total_loss_fn` should be a function.''), st)) \<and>
   (tf_executing_eagerly fw (host st) \<and> loss p = LossTensors l \<and>
    total_loss_fn p \<noteq> TotalLossFnNotCallable \<longrightarrow>
      create_train_step fw py2 truthy p st =
        (Inl (ValueError ''`loss` should be a function in eager mode.''),
         st\<lparr>host := (case global_step p of
                       USE_GLOBAL_STEP \<Rightarrow> snd (tf_get_or_create_global_step fw (host st))
                     | GlobalStep g \<Rightarrow> host st)\<rparr>))"
proof (intro conjI impI; (elim conjE)?)
  assume "total_loss_fn p = TotalLossFnNotCallable"
  then show "create_train_step fw py2 truthy p st =
        (Inl (ValueError ''`total_loss_fn` should be a function.''), st)"
    by (simp add: create_train_step_def)
next
  assume a: "tf_executing_eagerly fw (host st)" "loss p = LossTensors l"
    "total_loss_fn p \<noteq> TotalLossFnNotCallable"
  then show "create_train_step fw py2 truthy p st =
        (Inl (ValueError ''`loss` should be a function in eager mode.''),
         st\<lparr>host := (case global_step p of
                       USE_GLOBAL_STEP \<Rightarrow> snd (tf_get_or_create_global_step fw (host st))
                     | GlobalStep g \<Rightarrow> host st)\<rparr>)"
    by (cases "total_loss_fn p"; cases "global_step p")
       (simp_all add: create_train_step_def resolve_global_step_def Let_def)
qed

theorem create_train_step_rejects_before_training_witness:
  "total_loss_fn bad_total_loss_fn_args = TotalLossFnNotCallable \<and>
   create_train_step demo_graph_fw False truthy_int bad_total_loss_fn_args initial_state =
     (Inl (ValueError ''`total_loss_fn` should be a function.''), initial_state) \<and>
   create_train_step demo_fw False truthy_int bad_total_loss_fn_args initial_state =
     (Inl (ValueError ''`total_loss_fn` should be a function.''), initial_state) \<and>
   tf_executing_eagerly demo_fw (host initial_state) \<and>
   loss tensor_loss_args = LossTensors (Leaf 5) \<and>
   total_loss_fn tensor_loss_args \<noteq> TotalLossFnNotCallable \<and>
   create_train_step demo_fw False truthy_int tensor_loss_args initial_state =
     (Inl (ValueError ''`loss` should be a function in eager mode.''),
      \<lparr>heap = [], host = [Event ''get_or_create_global_step'' [] [''global_step'']]\<rparr>) \<and>
   create_train_step demo_fw False truthy_int
       (tensor_loss_args\<lparr>global_step := GlobalStep None\<rparr>) initial_state =
     (Inl (ValueError ''`loss` should be a function in eager mode.''), initial_state)"
  using create_train_step_rejects_before_training
      [where p = bad_total_loss_fn_args and fw = demo_graph_fw and ?py2.0 = False
         and truthy = truthy_int and st = initial_state]
    create_train_step_rejects_before_training
      [where p = bad_total_loss_fn_args and fw = demo_fw and ?py2.0 = False
         and truthy = truthy_int and st = initial_state]
    create_train_step_rejects_before_training
      [where p = tensor_loss_args and fw = demo_fw and ?py2.0 = False
         and truthy = truthy_int and st = initial_state and l = "Leaf 5"]
    create_train_step_rejects_before_training
      [where p = "tensor_loss_args\<lparr>global_step := GlobalStep None\<rparr>" and fw = demo_fw
         and ?py2.0 = False and truthy = truthy_int and st = initial_state and l = "Leaf 5"]
  by (simp add: bad_total_loss_fn_args_def tensor_loss_args_def demo_args_def demo_fw_def
      initial_state_def)

text \<open>
  Claim C9 as stated fails: in eager mode with a loss that is not callable and
  \<open>global_step\<close> left at its default, \<open>create_train_step\<close> raises the ValueError after
  \<open>tf.train.get_or_create_global_step()\<close> has run, which obtains (and, where there is
  none yet, creates) the global step variable: the state of the host is not what it was.
\<close>

theorem create_train_step_global_step_counterexample:
  "fst (create_train_step demo_fw False truthy_int tensor_loss_args initial_state) =
     Inl (ValueError ''`loss` should be a function in eager mode.'') \<and>
   host initial_state = [] \<and>
   host (snd (create_train_step demo_fw False truthy_int tensor_loss_args initial_state)) =
     [Event ''get_or_create_global_step'' [] [''global_step'']]"
  by (simp add: create_train_step_def resolve_global_step_def tensor_loss_args_def
      demo_args_def demo_fw_def initial_state_def Let_def)

section \<open>Errors\<close>






















end
